theory Spec2Isabelle
  imports Main "HOL-Library.Word"
begin

section \<open>mc4sv: an IPv4 multicast receiver\<close>

text \<open>
  A shallow embedding of \<^verbatim>\<open>mc4sv.c\<close>. The program parses its options, resolves
  the multicast group, the interface and the service, opens and joins a UDP socket, and
  counts the datagrams it receives until a signal makes it print a summary.

  The C library and the kernel are not part of the repository. Their calls are modelled
  after their manual pages (\<^verbatim>\<open>getopt\<close>, \<^verbatim>\<open>atoi\<close>, \<^verbatim>\<open>inet_aton\<close>,
  \<^verbatim>\<open>inet_ntoa\<close>, \<^verbatim>\<open>strcmp\<close>, \<^verbatim>\<open>printf\<close>), or their results are read from
  an environment record (\<^verbatim>\<open>getifaddrs\<close>, \<^verbatim>\<open>getaddrinfo\<close>, \<^verbatim>\<open>socket\<close>,
  \<^verbatim>\<open>bind\<close>, \<^verbatim>\<open>setsockopt\<close>, \<^verbatim>\<open>sigaction\<close>, \<^verbatim>\<open>setitimer\<close>,
  \<^verbatim>\<open>recvfrom\<close>). Integer types have the widths of an LP64 platform:
  \<^verbatim>\<open>size_t\<close> and \<^verbatim>\<open>ssize_t\<close> are 64 bits wide.
\<close>

subsection \<open>Machine types\<close>

type_synonym size_t = "64 word"
type_synonym ssize_t = "64 word"
type_synonym in_addr = "32 word"
type_synonym in_port_t = "16 word"

text \<open>\<^verbatim>\<open>#define BUFFERSIZE 2048\<close>\<close>

definition BUFFERSIZE :: nat where
  "BUFFERSIZE = 2048"

text \<open>
  The byte order of the host. Addresses and ports are kept in network byte order inside
  \<^verbatim>\<open>struct sockaddr_in\<close>; a field of the model holds the number the C program reads
  from the field, so on a little-endian host it is the byte-swapped number.
\<close>

datatype endian = LittleEndian | BigEndian

definition bswap16 :: "16 word \<Rightarrow> 16 word" where
  "bswap16 x = word_of_nat ((unat x mod 256) * 256 + unat x div 256)"

definition bswap32 :: "32 word \<Rightarrow> 32 word" where
  "bswap32 x =
     word_of_nat ((unat x mod 256) * 16777216 + (unat x div 256 mod 256) * 65536
       + (unat x div 65536 mod 256) * 256 + unat x div 16777216)"

definition htons :: "endian \<Rightarrow> 16 word \<Rightarrow> 16 word" where
  "htons e x = (case e of LittleEndian \<Rightarrow> bswap16 x | BigEndian \<Rightarrow> x)"

definition ntohs :: "endian \<Rightarrow> 16 word \<Rightarrow> 16 word" where
  "ntohs e x = (case e of LittleEndian \<Rightarrow> bswap16 x | BigEndian \<Rightarrow> x)"

definition htonl :: "endian \<Rightarrow> 32 word \<Rightarrow> 32 word" where
  "htonl e x = (case e of LittleEndian \<Rightarrow> bswap32 x | BigEndian \<Rightarrow> x)"

definition ntohl :: "endian \<Rightarrow> 32 word \<Rightarrow> 32 word" where
  "ntohl e x = (case e of LittleEndian \<Rightarrow> bswap32 x | BigEndian \<Rightarrow> x)"

definition INADDR_ANY :: "32 word" where
  "INADDR_ANY = 0"

record sockaddr_in =
  sin_port :: in_port_t
  sin_addr :: in_addr

subsection \<open>Formatted output\<close>

text \<open>The decimal conversions \<^verbatim>\<open>%u\<close> and \<^verbatim>\<open>%zu\<close> of \<^verbatim>\<open>printf\<close>.\<close>

definition digit_char :: "nat \<Rightarrow> char" where
  "digit_char d = ''0123456789'' ! (d mod 10)"

fun show_nat :: "nat \<Rightarrow> string" where
  "show_nat n = (if n < 10 then [digit_char n] else show_nat (n div 10) @ [digit_char n])"

declare show_nat.simps [simp del]

text \<open>
  \<^verbatim>\<open>inet_ntoa\<close>: the four bytes of the address, in network order, in dotted-decimal
  notation.
\<close>

definition inet_ntoa :: "endian \<Rightarrow> in_addr \<Rightarrow> string" where
  "inet_ntoa e a =
     (let v = unat (ntohl e a) in
      show_nat (v div 16777216) @ ''.'' @ show_nat (v div 65536 mod 256) @ ''.'' @
      show_nat (v div 256 mod 256) @ ''.'' @ show_nat (v mod 256))"

subsection \<open>Fatal exits\<close>

text \<open>
  The program ends early through \<^verbatim>\<open>usage()\<close>, which prints the usage line on the
  error stream and calls \<^verbatim>\<open>exit(1)\<close>, through \<^verbatim>\<open>errx(eval, fmt, ...)\<close>, which prints
  the formatted message, or through \<^verbatim>\<open>err(eval, fmt, ...)\<close>, which prints the formatted
  message followed by the text of \<^verbatim>\<open>errno\<close>. A failure keeps the exit status and the
  formatted message.
\<close>

datatype failure = Usage | Errx int string | Err int string


fun exit_status :: "failure \<Rightarrow> int" where
  "exit_status Usage = 1"
| "exit_status (Errx eval m) = eval"
| "exit_status (Err eval m) = eval"


subsection \<open>Characters and numbers of the C library\<close>

definition isspace :: "char \<Rightarrow> bool" where
  "isspace c = (c = CHR '' '' \<or> (9 \<le> (of_char c :: nat) \<and> (of_char c :: nat) \<le> 13))"

definition isdigit :: "char \<Rightarrow> bool" where
  "isdigit c = (48 \<le> (of_char c :: nat) \<and> (of_char c :: nat) \<le> 57)"

definition isxdigit :: "char \<Rightarrow> bool" where
  "isxdigit c = (isdigit c \<or> (97 \<le> (of_char c :: nat) \<and> (of_char c :: nat) \<le> 102)
     \<or> (65 \<le> (of_char c :: nat) \<and> (of_char c :: nat) \<le> 70))"

definition digit_val :: "char \<Rightarrow> nat" where
  "digit_val c = of_char c - 48"

definition xdigit_val :: "char \<Rightarrow> nat" where
  "xdigit_val c =
     (if isdigit c then of_char c - 48
      else if 97 \<le> (of_char c :: nat) then of_char c - 87 else of_char c - 55)"

text \<open>
  \<^verbatim>\<open>atoi\<close>: white space is skipped, an optional sign is read, and the decimal digits
  that follow give the value; text with no digits there gives 0. The model computes the
  value as a mathematical integer. ISO C defines the result only when the value fits in
  \<^verbatim>\<open>int\<close>, so statements about \<^verbatim>\<open>atoi\<close> are made for values between
  \<^verbatim>\<open>INT_MIN\<close> and \<^verbatim>\<open>INT_MAX\<close>; outside them the model says nothing about the
  program.
\<close>

fun atoi_digits :: "int \<Rightarrow> string \<Rightarrow> int" where
  "atoi_digits acc [] = acc"
| "atoi_digits acc (c # cs) =
     (if isdigit c then atoi_digits (acc * 10 + int (digit_val c)) cs else acc)"

definition atoi :: "string \<Rightarrow> int" where
  "atoi s =
     (case dropWhile isspace s of
        [] \<Rightarrow> 0
      | c # cs \<Rightarrow>
          if c = CHR ''-'' then - atoi_digits 0 cs
          else if c = CHR ''+'' then atoi_digits 0 cs
          else atoi_digits 0 (c # cs))"

definition INT_MAX :: int where
  "INT_MAX = 2147483647"

definition INT_MIN :: int where
  "INT_MIN = - 2147483648"

text \<open>
  \<^verbatim>\<open>strcmp\<close>: zero for equal strings, negative or positive by the first place where
  they differ. Only the sign of the result is specified.
\<close>

fun strcmp :: "string \<Rightarrow> string \<Rightarrow> int" where
  "strcmp [] [] = 0"
| "strcmp [] (b # bs) = - 1"
| "strcmp (a # as) [] = 1"
| "strcmp (a # as) (b # bs) =
     (if a = b then strcmp as bs else if (of_char a :: nat) < of_char b then - 1 else 1)"

subsection \<open>Options and operands (lines 70 to 107)\<close>

text \<open>
  \<^verbatim>\<open>getopt(argc, argv, "i:qt:")\<close> as POSIX describes it, with no permutation of the
  arguments. The scan runs over \<^verbatim>\<open>argv[1]\<close>, \<^verbatim>\<open>argv[2]\<close>, ... and gives the
  successive results (the option character with \<^verbatim>\<open>optarg\<close>) and the operands left
  from \<^verbatim>\<open>optind\<close> on. An option character that is not in the option string, and an
  option whose argument is missing, give \<^verbatim>\<open>'?'\<close>. The first argument of the scan is
  the rest of the argument that is being read.
\<close>

fun optspec :: "string \<Rightarrow> char \<Rightarrow> bool option" where
  "optspec [] c = None"
| "optspec (x # xs) c =
     (if x = c \<and> c \<noteq> CHR '':''
      then Some (case xs of [] \<Rightarrow> False | y # ys \<Rightarrow> y = CHR '':'')
      else optspec xs c)"

definition opt_cons :: "char \<times> string \<Rightarrow> (char \<times> string) list \<times> string list \<Rightarrow> (char \<times> string) list \<times> string list" where
  "opt_cons r p = (r # fst p, snd p)"

fun getopt_scan :: "string \<Rightarrow> string \<Rightarrow> string list \<Rightarrow> (char \<times> string) list \<times> string list" where
  "getopt_scan optstring [] [] = ([], [])"
| "getopt_scan optstring [] (a # rest) =
     (if a = ''--'' then ([], rest)
      else case a of
        [] \<Rightarrow> ([], a # rest)
      | c1 # r1 \<Rightarrow>
          (case r1 of
             [] \<Rightarrow> ([], a # rest)
           | c # cs \<Rightarrow>
               if c1 = CHR ''-'' then getopt_scan optstring (c # cs) rest else ([], a # rest)))"
| "getopt_scan optstring (c # cs) rest =
     (case optspec optstring c of
        None \<Rightarrow> opt_cons (CHR ''?'', []) (getopt_scan optstring cs rest)
      | Some needs_arg \<Rightarrow>
          if \<not> needs_arg then opt_cons (c, []) (getopt_scan optstring cs rest)
          else if cs \<noteq> [] then opt_cons (c, cs) (getopt_scan optstring [] rest)
          else (case rest of
                  [] \<Rightarrow> ([(CHR ''?'', [])], [])
                | a # rest' \<Rightarrow> opt_cons (c, a) (getopt_scan optstring [] rest')))"

text \<open>\<^verbatim>\<open>IFNAMSIZ\<close> of \<^verbatim>\<open><net/if.h>\<close>, the size of \<^verbatim>\<open>ifname\<close>.\<close>

definition IFNAMSIZ :: nat where
  "IFNAMSIZ = 16"

text \<open>The variables that the arguments set, with their initial values.\<close>

record config =
  ifname :: string
  quiet :: bool
  timeout :: int
  mcast :: string
  service :: string

definition config_init :: config where
  "config_init =
     \<lparr>ifname = [], quiet = False, timeout = 0, mcast = ''224.0.0.1'', service = ''discard''\<rparr>"

text \<open>
  The \<^verbatim>\<open>while\<close> loop over the results of \<^verbatim>\<open>getopt\<close> with its \<^verbatim>\<open>switch\<close>,
  lines 72 to 91.
\<close>

fun option_loop :: "config \<Rightarrow> (char \<times> string) list \<Rightarrow> failure + config" where
  "option_loop c [] = Inr c"
| "option_loop c ((ch, optarg) # rs) =
     (if ch = CHR ''i'' then
        if length optarg \<ge> IFNAMSIZ
        then Inl (Errx 1 (optarg @ '': interface name too long''))
        else option_loop (c\<lparr>ifname := optarg\<rparr>) rs
      else if ch = CHR ''q'' then option_loop (c\<lparr>quiet := True\<rparr>) rs
      else if ch = CHR ''t'' then
        if atoi optarg > 3600
        then Inl (Errx 1 (optarg @ '': invalid timeout (>3600)''))
        else option_loop (c\<lparr>timeout := atoi optarg\<rparr>) rs
      else Inl Usage)"

text \<open>\<^verbatim>\<open>switch (argc)\<close> on the number of operands, lines 95 to 107.\<close>

fun operands :: "config \<Rightarrow> string list \<Rightarrow> failure + config" where
  "operands c [] = Inr c"
| "operands c [m] = Inr (c\<lparr>mcast := m\<rparr>)"
| "operands c [m, sv] = Inr (c\<lparr>service := sv, mcast := m\<rparr>)"
| "operands c (m # sv # x # xs) = Inl Usage"

text \<open>Lines 70 to 107: \<^verbatim>\<open>argv[0]\<close> is the name of the program.\<close>

definition configure :: "string list \<Rightarrow> failure + config" where
  "configure argv =
     (case getopt_scan ''i:qt:'' [] (tl argv) of
        (rs, ops) \<Rightarrow>
          (case option_loop config_init rs of
             Inl f \<Rightarrow> Inl f
           | Inr c \<Rightarrow> operands c ops))"

subsection \<open>The receive loop\<close>

text \<open>
  A datagram on the wire: the sender's address and port as numbers, and the payload.
\<close>

record datagram =
  src_addr :: "32 word"
  src_port :: "16 word"
  payload :: "8 word list"

text \<open>
  What one call of \<^verbatim>\<open>recvfrom\<close> meets: a datagram, or a failure (the call returns
  \<^verbatim>\<open>-1\<close>).
\<close>

datatype arrival = Datagram datagram | RecvFailure

text \<open>
  \<^verbatim>\<open>recvfrom(fd, buffer, sizeof(buffer), 0, (struct sockaddr *)&sin, &slen)\<close> on a
  datagram socket: the message is copied into the buffer, the bytes that do not fit are
  discarded, the number of bytes copied is returned and the sender is stored in
  \<^verbatim>\<open>sin\<close>. A failed call returns \<^verbatim>\<open>-1\<close> and leaves \<^verbatim>\<open>sin\<close> as it was.
\<close>

definition recvfrom :: "endian \<Rightarrow> nat \<Rightarrow> sockaddr_in \<Rightarrow> arrival \<Rightarrow> ssize_t \<times> 8 word list \<times> sockaddr_in" where
  "recvfrom e len from a =
     (case a of
        Datagram d \<Rightarrow>
          (word_of_nat (min (length (payload d)) len), take len (payload d),
           \<lparr>sin_port = htons e (src_port d), sin_addr = htonl e (src_addr d)\<rparr>)
      | RecvFailure \<Rightarrow> (- 1, [], from))"

text \<open>The variables of \<^verbatim>\<open>main\<close> that the loop changes, and what it has printed.\<close>

record loop_state =
  packets :: size_t
  sumsize :: size_t
  sin :: sockaddr_in
  printed :: "string list"

text \<open>
  \<^verbatim>\<open>printf("received from %s:%u (%zu)\n", inet_ntoa(sin.sin_addr), sin.sin_port,
  (size_t)received)\<close>
\<close>

definition packet_line :: "endian \<Rightarrow> sockaddr_in \<Rightarrow> ssize_t \<Rightarrow> string" where
  "packet_line e from received =
     ''received from '' @ inet_ntoa e (sin_addr from) @ '':'' @ show_nat (unat (sin_port from))
       @ '' ('' @ show_nat (unat received) @ '')'' @ [CHR 0x0A]"

text \<open>One turn of \<^verbatim>\<open>for (;;)\<close>, lines 165 to 173.\<close>

definition loop_body :: "endian \<Rightarrow> bool \<Rightarrow> loop_state \<Rightarrow> arrival \<Rightarrow> loop_state" where
  "loop_body e q s a =
     (case recvfrom e BUFFERSIZE (sin s) a of
        (received, buffer, from) \<Rightarrow>
          (let s1 = s\<lparr>packets := packets s + 1, sumsize := sumsize s + received, sin := from\<rparr>
           in if \<not> q
              then s1\<lparr>printed := printed s1 @ [packet_line e from received]\<rparr>
              else s1))"

text \<open>
  The loop has no exit of its own. \<^verbatim>\<open>SIGALRM\<close> and \<^verbatim>\<open>SIGINT\<close> run
  \<^verbatim>\<open>alarm_handler\<close>, whose \<^verbatim>\<open>siglongjmp\<close> makes \<^verbatim>\<open>sigsetjmp\<close> return 1,
  and \<^verbatim>\<open>main\<close> goes to \<^verbatim>\<open>quit\<close>. The loop runs over the events of a finite
  observation: the result says whether a signal ended the loop, or the program is still
  blocked in \<^verbatim>\<open>recvfrom\<close> when the observation ends.
\<close>

datatype loop_event = Recv arrival | Signal

fun receive_loop :: "endian \<Rightarrow> bool \<Rightarrow> loop_state \<Rightarrow> loop_event list \<Rightarrow> loop_state \<times> bool" where
  "receive_loop e q s [] = (s, False)"
| "receive_loop e q s (Signal # evs) = (s, True)"
| "receive_loop e q s (Recv a # evs) = receive_loop e q (loop_body e q s a) evs"

text \<open>\<^verbatim>\<open>packets = 0; sumsize = 0;\<close> (lines 162 and 163)\<close>

definition loop_init :: "sockaddr_in \<Rightarrow> loop_state" where
  "loop_init from = \<lparr>packets = 0, sumsize = 0, sin = from, printed = []\<rparr>"

text \<open>The number of bytes \<^verbatim>\<open>recvfrom\<close> reports for a datagram.\<close>

definition received_len :: "datagram \<Rightarrow> nat" where
  "received_len d = min (length (payload d)) BUFFERSIZE"


text \<open>
  \<^verbatim>\<open>printf("\n%zu packets (%zu byte) received.\n", packets, sumsize)\<close> at
  \<^verbatim>\<open>quit\<close>.
\<close>

definition summary_line :: "size_t \<Rightarrow> size_t \<Rightarrow> string" where
  "summary_line n b =
     [CHR 0x0A] @ show_nat (unat n) @ '' packets ('' @ show_nat (unat b) @ '' byte) received.''
       @ [CHR 0x0A]"

subsection \<open>The multicast group (lines 109 and 110)\<close>

text \<open>
  \<^verbatim>\<open>inet_aton\<close>, after the 4.4BSD implementation: one to four numbers separated by
  dots, each written as in C (decimal, octal after \<^verbatim>\<open>0\<close>, hexadecimal after
  \<^verbatim>\<open>0x\<close>). Every number but the last is one byte; the last one fills the bytes that
  are left. The address may be followed by white space.
\<close>

fun scan_digits :: "nat \<Rightarrow> nat \<Rightarrow> string \<Rightarrow> (nat \<times> string) option" where
  "scan_digits base acc [] = Some (acc, [])"
| "scan_digits base acc (c # cs) =
     (if isdigit c then
        if base = 8 \<and> (c = CHR ''8'' \<or> c = CHR ''9'') then None
        else scan_digits base (acc * base + digit_val c) cs
      else if base = 16 \<and> isxdigit c then scan_digits base (acc * 16 + xdigit_val c) cs
      else Some (acc, c # cs))"

definition scan_number :: "string \<Rightarrow> (nat \<times> string) option" where
  "scan_number s =
     (case s of
        [] \<Rightarrow> None
      | c # cs \<Rightarrow>
          if \<not> isdigit c then None
          else if c = CHR ''0'' then
            (case cs of
               [] \<Rightarrow> scan_digits 8 0 cs
             | x # r \<Rightarrow>
                 if x = CHR ''x'' \<or> x = CHR ''X'' then scan_digits 16 0 r
                 else scan_digits 8 0 cs)
          else scan_digits 10 0 s)"

text \<open>
  The loop over the parts. The first argument counts the dots that may still follow
  (\<^verbatim>\<open>pp >= parts + 3\<close> ends the scan with an error).
\<close>

fun aton_parts :: "nat \<Rightarrow> nat list \<Rightarrow> string \<Rightarrow> (nat list \<times> nat \<times> string) option" where
  "aton_parts k parts s =
     (case scan_number s of
        None \<Rightarrow> None
      | Some (v, rest) \<Rightarrow>
          (case rest of
             [] \<Rightarrow> Some (parts, v, rest)
           | c # rest' \<Rightarrow>
               if c = CHR ''.'' then
                 (case k of
                    0 \<Rightarrow> None
                  | Suc k' \<Rightarrow> if v > 255 then None else aton_parts k' (parts @ [v]) rest')
               else Some (parts, v, rest)))"

declare aton_parts.simps [simp del]

definition aton_value :: "string \<Rightarrow> nat option" where
  "aton_value s =
     (case aton_parts 3 [] s of
        None \<Rightarrow> None
      | Some (parts, v, rest) \<Rightarrow>
          if rest \<noteq> [] \<and> \<not> isspace (hd rest) then None
          else (case parts of
                  [] \<Rightarrow> if v > 4294967295 then None else Some v
                | [a] \<Rightarrow> if v > 16777215 then None else Some (a * 16777216 + v)
                | [a, b] \<Rightarrow> if v > 65535 then None else Some (a * 16777216 + b * 65536 + v)
                | [a, b, c] \<Rightarrow>
                    if v > 255 then None else Some (a * 16777216 + b * 65536 + c * 256 + v)
                | _ \<Rightarrow> None))"

text \<open>
  The result of \<^verbatim>\<open>inet_aton\<close>: \<open>None\<close> when it returns 0, else the address it
  stores, in network byte order.
\<close>

definition inet_aton :: "endian \<Rightarrow> string \<Rightarrow> in_addr option" where
  "inet_aton e s = map_option (\<lambda>v. htonl e (word_of_nat v)) (aton_value s)"

text \<open>The multicast range 224.0.0.0/4, which the program never consults.\<close>

definition IN_MULTICAST :: "32 word \<Rightarrow> bool" where
  "IN_MULTICAST a = (unat a div 268435456 = 14)"

subsection \<open>The interface (lines 111 to 114 and 189 to 207)\<close>

definition AF_INET :: nat where
  "AF_INET = 2"

text \<open>
  \<^verbatim>\<open>struct sockaddr\<close> with its family, and the fields the program reads through the
  cast to \<^verbatim>\<open>struct sockaddr_in *\<close>.
\<close>

record sockaddr =
  sa_family :: nat
  sa_in :: sockaddr_in

text \<open>An entry of the list of \<^verbatim>\<open>getifaddrs\<close>; \<^verbatim>\<open>ifa_addr\<close> may be \<^verbatim>\<open>NULL\<close>.\<close>

record ifaddrs =
  ifa_name :: string
  ifa_addr :: "sockaddr option"

text \<open>The \<^verbatim>\<open>for\<close> loop of \<^verbatim>\<open>get_inaddr\<close>: the value of \<^verbatim>\<open>ifa\<close> after it.\<close>

fun get_inaddr_loop :: "string \<Rightarrow> ifaddrs list \<Rightarrow> ifaddrs option" where
  "get_inaddr_loop name [] = None"
| "get_inaddr_loop name (ifa # rest) =
     (case ifa_addr ifa of
        None \<Rightarrow> get_inaddr_loop name rest
      | Some sa \<Rightarrow>
          if sa_family sa \<noteq> AF_INET then get_inaddr_loop name rest
          else if strcmp name (ifa_name ifa) = 0 then Some ifa
          else get_inaddr_loop name rest)"

text \<open>
  \<^verbatim>\<open>get_inaddr\<close>. Its first argument is the list of \<^verbatim>\<open>getifaddrs\<close>, or \<open>None\<close>
  when that call returns \<^verbatim>\<open>-1\<close>. The entry the loop stops at has an address (see
  \<open>get_inaddr_loop_Some\<close>), which \<^verbatim>\<open>*addr = ...->sin_addr\<close> reads.
\<close>

definition get_inaddr :: "ifaddrs list option \<Rightarrow> string \<Rightarrow> failure + in_addr" where
  "get_inaddr res name =
     (case res of
        None \<Rightarrow> Inl (Err 1 ''getifaddrs'')
      | Some ifs \<Rightarrow>
          (case get_inaddr_loop name ifs of
             None \<Rightarrow> Inl (Errx 1 (name @ '': interface does not exist or is invalid''))
           | Some ifa \<Rightarrow> Inr (sin_addr (sa_in (the (ifa_addr ifa))))))"

subsection \<open>The socket (lines 116 to 144)\<close>

text \<open>\<^verbatim>\<open>struct ip_mreq\<close>\<close>

record ip_mreq =
  imr_multiaddr :: in_addr
  imr_interface :: in_addr

text \<open>
  An entry of the list of \<^verbatim>\<open>getaddrinfo\<close>, with what the kernel answers to the three
  calls the program makes for it: \<^verbatim>\<open>socket\<close> (a descriptor or \<^verbatim>\<open>-1\<close>),
  \<^verbatim>\<open>bind\<close> and \<^verbatim>\<open>setsockopt\<close> (0 or \<^verbatim>\<open>-1\<close>).
\<close>

record addrinfo =
  ai_socket :: int
  ai_bind :: int
  ai_setsockopt :: int

datatype signal = SIGALRM | SIGINT

text \<open>The calls the program makes, with their results, in the order it makes them.\<close>

datatype syscall =
    Getifaddrs
  | Getaddrinfo string
  | Socket int
  | Bind int int
  | AddMembership int ip_mreq int
  | Close int
  | Sigaction signal int
  | Setitimer int int

text \<open>
  The \<^verbatim>\<open>for\<close> loop over the candidates, lines 123 to 141. It starts from the values
  \<^verbatim>\<open>cause\<close> and \<^verbatim>\<open>fd\<close> have before it and gives the values of \<^verbatim>\<open>ai\<close>
  (\<open>None\<close> for \<^verbatim>\<open>NULL\<close>), \<^verbatim>\<open>cause\<close> and \<^verbatim>\<open>fd\<close> after it, with the calls
  made.
\<close>

fun join_loop :: "ip_mreq \<Rightarrow> string \<Rightarrow> int \<Rightarrow> addrinfo list \<Rightarrow> addrinfo option \<times> string \<times> int \<times> syscall list" where
  "join_loop imr cause fd [] = (None, cause, fd, [])"
| "join_loop imr cause fd (ai # rest) =
     (if ai_socket ai = - 1 then
        (case join_loop imr ''socket'' (ai_socket ai) rest of
           (r, cause', fd', cs) \<Rightarrow> (r, cause', fd', Socket (ai_socket ai) # cs))
      else if ai_bind ai = - 1 then
        (case join_loop imr ''bind'' (ai_socket ai) rest of
           (r, cause', fd', cs) \<Rightarrow>
             (r, cause', fd',
              Socket (ai_socket ai) # Bind (ai_socket ai) (ai_bind ai) # Close (ai_socket ai) # cs))
      else if ai_setsockopt ai = - 1 then
        (case join_loop imr ''IP_ADD_MEMBERSHIP'' (ai_socket ai) rest of
           (r, cause', fd', cs) \<Rightarrow>
             (r, cause', fd',
              Socket (ai_socket ai) # Bind (ai_socket ai) (ai_bind ai)
                # AddMembership (ai_socket ai) imr (ai_setsockopt ai) # Close (ai_socket ai) # cs))
      else
        (Some ai, cause, ai_socket ai,
         [Socket (ai_socket ai), Bind (ai_socket ai) (ai_bind ai),
          AddMembership (ai_socket ai) imr (ai_setsockopt ai)]))"

text \<open>
  The sockets the kernel holds for the process after a sequence of calls: each with
  whether it is bound, and the group it has joined.
\<close>

record socket_state =
  is_bound :: bool
  membership :: "ip_mreq option"

fun kernel_step :: "(int \<rightharpoonup> socket_state) \<Rightarrow> syscall \<Rightarrow> (int \<rightharpoonup> socket_state)" where
  "kernel_step k (Socket r) =
     (if r = - 1 then k else k(r \<mapsto> \<lparr>is_bound = False, membership = None\<rparr>))"
| "kernel_step k (Bind fd r) =
     (case k fd of
        None \<Rightarrow> k
      | Some s \<Rightarrow> if r = - 1 then k else k(fd \<mapsto> s\<lparr>is_bound := True\<rparr>))"
| "kernel_step k (AddMembership fd imr r) =
     (case k fd of
        None \<Rightarrow> k
      | Some s \<Rightarrow> if r = - 1 then k else k(fd \<mapsto> s\<lparr>membership := Some imr\<rparr>))"
| "kernel_step k (Close fd) = k(fd := None)"
| "kernel_step k c = k"

definition sockets_after :: "syscall list \<Rightarrow> (int \<rightharpoonup> socket_state)" where
  "sockets_after cs = foldl kernel_step Map.empty cs"

subsection \<open>The program\<close>

text \<open>
  What the program meets outside itself: the byte order of the host, the answers of the
  library and the kernel, the values the uninitialised variables \<^verbatim>\<open>cause\<close>,
  \<^verbatim>\<open>fd\<close> and \<^verbatim>\<open>sin\<close> hold, and what happens while the program is in the
  receive loop.
\<close>

record env =
  host_endian :: endian
  getifaddrs_result :: "ifaddrs list option"
  getaddrinfo_result :: "string \<Rightarrow> string + addrinfo list"
  sigaction_result :: "signal \<Rightarrow> int"
  setitimer_result :: "int \<Rightarrow> int"
  stack_cause :: string
  stack_fd :: int
  stack_sin :: sockaddr_in
  arrivals :: "loop_event list"

text \<open>
  How an observation of the program ends: with a fatal exit, with \<^verbatim>\<open>return 0\<close> after
  the summary, or still blocked in \<^verbatim>\<open>recvfrom\<close>.
\<close>

datatype outcome = Fatal failure | Finished | Blocked

fun exit_code :: "outcome \<Rightarrow> int option" where
  "exit_code (Fatal f) = Some (exit_status f)"
| "exit_code Finished = Some 0"
| "exit_code Blocked = None"

record run =
  outcome :: outcome
  calls :: "syscall list"
  stdout :: "string list"

definition die :: "failure \<Rightarrow> syscall list \<Rightarrow> run" where
  "die f cs = \<lparr>outcome = Fatal f, calls = cs, stdout = []\<rparr>"

text \<open>
  Lines 162 to 180: the loop, and \<^verbatim>\<open>quit\<close>. The summary is printed from the values
  the loop has stored in \<^verbatim>\<open>packets\<close> and \<^verbatim>\<open>sumsize\<close>. Both are locals without
  \<^verbatim>\<open>volatile\<close> that change after \<^verbatim>\<open>sigsetjmp\<close>, so ISO C leaves their values
  indeterminate after \<^verbatim>\<open>siglongjmp\<close>; an optimising compiler may print other
  numbers. The model is that of a build that keeps both variables in memory.
\<close>

definition session :: "env \<Rightarrow> config \<Rightarrow> int \<Rightarrow> syscall list \<Rightarrow> run" where
  "session ev c fd cs =
     (case receive_loop (host_endian ev) (quiet c) (loop_init (stack_sin ev)) (arrivals ev) of
        (s, cancelled) \<Rightarrow>
          if cancelled
          then \<lparr>outcome = Finished, calls = cs @ [Close fd],
                stdout = printed s @ [summary_line (packets s) (sumsize s)]\<rparr>
          else \<lparr>outcome = Blocked, calls = cs, stdout = printed s\<rparr>)"

text \<open>Lines 157 to 160: the timer.\<close>

definition arm_timer :: "env \<Rightarrow> config \<Rightarrow> int \<Rightarrow> syscall list \<Rightarrow> run" where
  "arm_timer ev c fd cs =
     (let r = setitimer_result ev (timeout c) in
      if r = - 1 then die (Err 1 ''setitimer'') (cs @ [Setitimer (timeout c) r])
      else session ev c fd (cs @ [Setitimer (timeout c) r]))"

text \<open>Lines 146 to 152: the handler of both signals.\<close>

definition install_handlers :: "env \<Rightarrow> config \<Rightarrow> int \<Rightarrow> syscall list \<Rightarrow> run" where
  "install_handlers ev c fd cs =
     (let r1 = sigaction_result ev SIGALRM in
      if r1 = - 1 then die (Err 1 ''sigaction: SIGALRM'') (cs @ [Sigaction SIGALRM r1])
      else
        let r2 = sigaction_result ev SIGINT in
        if r2 = - 1
        then die (Err 1 ''sigaction: SIGINT'') (cs @ [Sigaction SIGALRM r1, Sigaction SIGINT r2])
        else arm_timer ev c fd (cs @ [Sigaction SIGALRM r1, Sigaction SIGINT r2]))"

text \<open>Lines 123 to 144: the candidates.\<close>

definition open_socket :: "env \<Rightarrow> config \<Rightarrow> ip_mreq \<Rightarrow> addrinfo list \<Rightarrow> syscall list \<Rightarrow> run" where
  "open_socket ev c imr res cs =
     (case join_loop imr (stack_cause ev) (stack_fd ev) res of
        (ai, cause, fd, js) \<Rightarrow>
          if ai = None then die (Err 1 cause) (cs @ js)
          else install_handlers ev c fd (cs @ js))"

text \<open>Lines 116 to 122: the service.\<close>

definition resolve_service :: "env \<Rightarrow> config \<Rightarrow> ip_mreq \<Rightarrow> syscall list \<Rightarrow> run" where
  "resolve_service ev c imr cs =
     (case getaddrinfo_result ev (service c) of
        Inl msg \<Rightarrow> die (Errx 1 msg) (cs @ [Getaddrinfo (service c)])
      | Inr res \<Rightarrow> open_socket ev c imr res (cs @ [Getaddrinfo (service c)]))"

text \<open>Lines 111 to 114: the interface.\<close>

definition resolve_interface :: "env \<Rightarrow> config \<Rightarrow> in_addr \<Rightarrow> run" where
  "resolve_interface ev c grp =
     (if ifname c \<noteq> [] then
        (case get_inaddr (getifaddrs_result ev) (ifname c) of
           Inl f \<Rightarrow> die f [Getifaddrs]
         | Inr a \<Rightarrow>
             resolve_service ev c \<lparr>imr_multiaddr = grp, imr_interface = a\<rparr> [Getifaddrs])
      else
        resolve_service ev c
          \<lparr>imr_multiaddr = grp, imr_interface = htonl (host_endian ev) INADDR_ANY\<rparr> [])"

text \<open>Lines 109 and 110: the group.\<close>

definition resolve_group :: "env \<Rightarrow> config \<Rightarrow> run" where
  "resolve_group ev c =
     (case inet_aton (host_endian ev) (mcast c) of
        None \<Rightarrow> die (Errx 1 (mcast c @ '': invalid multicast group'')) []
      | Some grp \<Rightarrow> resolve_interface ev c grp)"

text \<open>\<^verbatim>\<open>main\<close>\<close>

definition main :: "env \<Rightarrow> string list \<Rightarrow> run" where
  "main ev argv =
     (case configure argv of
        Inl f \<Rightarrow> die f []
      | Inr c \<Rightarrow> resolve_group ev c)"

subsection \<open>Notions used to state the properties\<close>

text \<open>The events of a loop in which every call of \<^verbatim>\<open>recvfrom\<close> receives a datagram.\<close>

definition datagram_events :: "datagram list \<Rightarrow> loop_event list" where
  "datagram_events ds = map (\<lambda>d. Recv (Datagram d)) ds"

text \<open>An entry of \<^verbatim>\<open>getifaddrs\<close> that has an address of family \<^verbatim>\<open>AF_INET\<close>.\<close>

definition carries_ipv4 :: "ifaddrs \<Rightarrow> bool" where
  "carries_ipv4 ifa = (case ifa_addr ifa of None \<Rightarrow> False | Some sa \<Rightarrow> sa_family sa = AF_INET)"

text \<open>
  A candidate for which \<^verbatim>\<open>socket\<close>, \<^verbatim>\<open>bind\<close> and \<^verbatim>\<open>setsockopt\<close> all succeed;
  for one that does not, the name the loop gives to the call that fails; and the calls the
  loop makes for one candidate.
\<close>

definition candidate_succeeds :: "addrinfo \<Rightarrow> bool" where
  "candidate_succeeds ai = (ai_socket ai \<noteq> - 1 \<and> ai_bind ai \<noteq> - 1 \<and> ai_setsockopt ai \<noteq> - 1)"

definition failing_operation :: "addrinfo \<Rightarrow> string" where
  "failing_operation ai =
     (if ai_socket ai = - 1 then ''socket''
      else if ai_bind ai = - 1 then ''bind'' else ''IP_ADD_MEMBERSHIP'')"

definition attempt_calls :: "ip_mreq \<Rightarrow> addrinfo \<Rightarrow> syscall list" where
  "attempt_calls imr ai =
     (if ai_socket ai = - 1 then [Socket (ai_socket ai)]
      else if ai_bind ai = - 1
      then [Socket (ai_socket ai), Bind (ai_socket ai) (ai_bind ai), Close (ai_socket ai)]
      else if ai_setsockopt ai = - 1
      then [Socket (ai_socket ai), Bind (ai_socket ai) (ai_bind ai),
            AddMembership (ai_socket ai) imr (ai_setsockopt ai), Close (ai_socket ai)]
      else [Socket (ai_socket ai), Bind (ai_socket ai) (ai_bind ai),
            AddMembership (ai_socket ai) imr (ai_setsockopt ai)])"




section \<open>Properties of the receive loop\<close>

lemma loop_body_packets: "packets (loop_body e q s a) = packets s + 1"
  by (simp add: loop_body_def recvfrom_def Let_def split: arrival.split)

lemma loop_body_sumsize_datagram:
  "sumsize (loop_body e q s (Datagram d)) = sumsize s + word_of_nat (received_len d)"
  by (simp add: loop_body_def recvfrom_def received_len_def Let_def)

lemma receive_loop_datagrams:
  "receive_loop e q s (datagram_events ds) = (s', c) \<Longrightarrow>
     packets s' = packets s + word_of_nat (length ds) \<and>
     sumsize s' = sumsize s + word_of_nat (sum_list (map received_len ds)) \<and> \<not> c"
proof (induction ds arbitrary: s)
  case Nil
  then show ?case by (simp add: datagram_events_def)
next
  case (Cons d ds)
  from Cons.prems
  have "receive_loop e q (loop_body e q s (Datagram d)) (datagram_events ds) = (s', c)"
    by (simp add: datagram_events_def)
  from Cons.IH [OF this] show ?case
    by (simp add: loop_body_packets loop_body_sumsize_datagram)
qed

lemma sum_received_len_le: "sum_list (map received_len ds) \<le> length ds * BUFFERSIZE"
  by (induction ds) (auto simp: received_len_def)

lemma counters_after:
  assumes "length ds * BUFFERSIZE < 2 ^ 64"
  shows "unat (packets (fst (receive_loop e q (loop_init a) (datagram_events ds)))) = length ds"
    and "unat (sumsize (fst (receive_loop e q (loop_init a) (datagram_events ds))))
           = sum_list (map received_len ds)"
proof -
  obtain s c where r: "receive_loop e q (loop_init a) (datagram_events ds) = (s, c)"
    by (cases "receive_loop e q (loop_init a) (datagram_events ds)")
  have cl: "packets s = word_of_nat (length ds)"
    "sumsize s = word_of_nat (sum_list (map received_len ds))"
    using receive_loop_datagrams [OF r] by (simp_all add: loop_init_def)
  have n: "length ds < 2 ^ 64"
    using assms by (cases "length ds") (auto simp: BUFFERSIZE_def)
  have m: "sum_list (map received_len ds) < 2 ^ 64"
    using assms sum_received_len_le [of ds] by simp
  show "unat (packets (fst (receive_loop e q (loop_init a) (datagram_events ds)))) = length ds"
    using cl n by (simp add: r unat_of_nat)
  show "unat (sumsize (fst (receive_loop e q (loop_init a) (datagram_events ds))))
           = sum_list (map received_len ds)"
    using cl m by (simp add: r unat_of_nat)
qed

text \<open>
  Claim C1, as amended. Every received datagram adds exactly 1 to \<^verbatim>\<open>packets\<close> and
  exactly the length \<^verbatim>\<open>recvfrom\<close> reports for it to \<^verbatim>\<open>sumsize\<close> (the addition
  of \<^verbatim>\<open>size_t\<close>); the reported length is the length of the payload for every payload
  of at most \<open>BUFFERSIZE\<close> bytes, and \<open>BUFFERSIZE\<close> for a longer one. When the datagrams
  \<open>ds\<close> arrive in this order, and the counters cannot wrap
  (\<open>length ds * BUFFERSIZE < 2 ^ 64\<close>), then after the first \<open>n\<close> of them
  \<^verbatim>\<open>packets\<close> reads \<open>n\<close> and \<^verbatim>\<open>sumsize\<close> reads the sum of their reported
  lengths; the next datagram raises \<^verbatim>\<open>packets\<close> by 1 and \<^verbatim>\<open>sumsize\<close> by its
  reported length, so no received datagram makes a counter go down.
\<close>

theorem receive_loop_counts:
  assumes "length ds * BUFFERSIZE < 2 ^ 64"
  shows "(\<forall>s d. packets (loop_body e q s (Datagram d)) = packets s + 1 \<and>
            sumsize (loop_body e q s (Datagram d)) = sumsize s + word_of_nat (received_len d)) \<and>
         (\<forall>n \<le> length ds.
            unat (packets (fst (receive_loop e q (loop_init a) (datagram_events (take n ds))))) = n \<and>
            unat (sumsize (fst (receive_loop e q (loop_init a) (datagram_events (take n ds)))))
              = sum_list (map received_len (take n ds)) \<and>
            (n < length ds \<longrightarrow>
               unat (packets (fst (receive_loop e q (loop_init a) (datagram_events (take (Suc n) ds)))))
                 = unat (packets (fst (receive_loop e q (loop_init a) (datagram_events (take n ds))))) + 1 \<and>
               unat (sumsize (fst (receive_loop e q (loop_init a) (datagram_events (take (Suc n) ds)))))
                 = unat (sumsize (fst (receive_loop e q (loop_init a) (datagram_events (take n ds)))))
                   + received_len (ds ! n) \<and>
               (length (payload (ds ! n)) \<le> BUFFERSIZE \<longrightarrow>
                  received_len (ds ! n) = length (payload (ds ! n)))))"
proof (intro conjI allI impI)
  fix s d
  show "packets (loop_body e q s (Datagram d)) = packets s + 1"
    by (rule loop_body_packets)
  show "sumsize (loop_body e q s (Datagram d)) = sumsize s + word_of_nat (received_len d)"
    by (rule loop_body_sumsize_datagram)
next
  fix n assume n: "n \<le> length ds"
  then have b: "length (take n ds) * BUFFERSIZE < 2 ^ 64"
    using assms by (simp add: min_def BUFFERSIZE_def)
  show "unat (packets (fst (receive_loop e q (loop_init a) (datagram_events (take n ds))))) = n"
    using counters_after(1) [OF b] n by simp
  show "unat (sumsize (fst (receive_loop e q (loop_init a) (datagram_events (take n ds)))))
              = sum_list (map received_len (take n ds))"
    using counters_after(2) [OF b] by simp
next
  fix n assume n: "n \<le> length ds" and l: "n < length ds"
  have b: "length (take n ds) * BUFFERSIZE < 2 ^ 64"
    using assms n by (simp add: min_def BUFFERSIZE_def)
  have b': "length (take (Suc n) ds) * BUFFERSIZE < 2 ^ 64"
    using assms l by (simp add: min_def BUFFERSIZE_def)
  show "unat (packets (fst (receive_loop e q (loop_init a) (datagram_events (take (Suc n) ds)))))
          = unat (packets (fst (receive_loop e q (loop_init a) (datagram_events (take n ds))))) + 1"
    using counters_after(1) [OF b] counters_after(1) [OF b'] l by simp
  show "unat (sumsize (fst (receive_loop e q (loop_init a) (datagram_events (take (Suc n) ds)))))
          = unat (sumsize (fst (receive_loop e q (loop_init a) (datagram_events (take n ds)))))
            + received_len (ds ! n)"
    using counters_after(2) [OF b, of e q a] counters_after(2) [OF b', of e q a] l
    by (simp add: take_Suc_conv_app_nth)
next
  fix n assume "length (payload (ds ! n)) \<le> BUFFERSIZE"
  then show "received_len (ds ! n) = length (payload (ds ! n))"
    by (simp add: received_len_def)
qed

text \<open>
  The scenario of the specification: datagrams of 10, 0 and 1400 bytes give 3 packets
  and 1410 bytes.
\<close>

theorem receive_loop_counts_witness:
  "length [\<lparr>src_addr = 3221225985, src_port = 4000, payload = replicate 10 0\<rparr>,
           \<lparr>src_addr = 3221225985, src_port = 4001, payload = []\<rparr>,
           \<lparr>src_addr = 3221225985, src_port = 4002, payload = replicate 1400 0\<rparr>] * BUFFERSIZE
     < 2 ^ 64 \<and>
   unat (packets (fst (receive_loop LittleEndian False (loop_init \<lparr>sin_port = 0, sin_addr = 0\<rparr>)
     (datagram_events
        [\<lparr>src_addr = 3221225985, src_port = 4000, payload = replicate 10 0\<rparr>,
         \<lparr>src_addr = 3221225985, src_port = 4001, payload = []\<rparr>,
         \<lparr>src_addr = 3221225985, src_port = 4002, payload = replicate 1400 0\<rparr>])))) = 3 \<and>
   unat (sumsize (fst (receive_loop LittleEndian False (loop_init \<lparr>sin_port = 0, sin_addr = 0\<rparr>)
     (datagram_events
        [\<lparr>src_addr = 3221225985, src_port = 4000, payload = replicate 10 0\<rparr>,
         \<lparr>src_addr = 3221225985, src_port = 4001, payload = []\<rparr>,
         \<lparr>src_addr = 3221225985, src_port = 4002, payload = replicate 1400 0\<rparr>])))) = 1410"
proof -
  let ?ds = "[\<lparr>src_addr = 3221225985, src_port = 4000, payload = replicate 10 0\<rparr>,
              \<lparr>src_addr = 3221225985, src_port = 4001, payload = []\<rparr>,
              \<lparr>src_addr = 3221225985, src_port = 4002, payload = replicate 1400 (0 :: 8 word)\<rparr>]"
  have h: "length ?ds * BUFFERSIZE < 2 ^ 64"
    by (simp add: BUFFERSIZE_def)
  have "3 \<le> length ?ds"
    by simp
  with receive_loop_counts [OF h, of LittleEndian False "\<lparr>sin_port = 0, sin_addr = 0\<rparr>"]
  have "unat (packets (fst (receive_loop LittleEndian False
            (loop_init \<lparr>sin_port = 0, sin_addr = 0\<rparr>) (datagram_events (take 3 ?ds))))) = 3 \<and>
        unat (sumsize (fst (receive_loop LittleEndian False
            (loop_init \<lparr>sin_port = 0, sin_addr = 0\<rparr>) (datagram_events (take 3 ?ds)))))
          = sum_list (map received_len (take 3 ?ds))"
    by blast
  then show ?thesis
    using h by (simp add: received_len_def BUFFERSIZE_def)
qed

text \<open>
  A datagram with a payload of 3000 bytes raises \<^verbatim>\<open>sumsize\<close> by 2048, not by the
  length of its payload.
\<close>

theorem byte_counter_counterexample:
  "length (payload \<lparr>src_addr = 3221225985, src_port = 9, payload = replicate 3000 7\<rparr>) = 3000 \<and>
   unat (sumsize (fst (receive_loop BigEndian True (loop_init \<lparr>sin_port = 0, sin_addr = 0\<rparr>)
     (datagram_events
        [\<lparr>src_addr = 3221225985, src_port = 9, payload = replicate 3000 7\<rparr>])))) = 2048"
  by (simp add: datagram_events_def loop_init_def loop_body_def recvfrom_def BUFFERSIZE_def)

subsection \<open>Oversized datagrams\<close>

lemma show_nat_2048: "show_nat 2048 = ''2048''"
  by (simp add: show_nat.simps digit_char_def)

lemma recvfrom_datagram_len:
  "unat (fst (recvfrom e BUFFERSIZE a (Datagram d))) = min (length (payload d)) BUFFERSIZE"
proof -
  have "min (length (payload d)) BUFFERSIZE < 2 ^ 64"
    by (simp add: BUFFERSIZE_def min_def)
  then show ?thesis
    by (simp add: recvfrom_def unat_of_nat)
qed

text \<open>
  Claim C9. A datagram of more than \<open>BUFFERSIZE\<close> = 2048 bytes is cut to the first 2048
  bytes: \<^verbatim>\<open>recvfrom\<close> reports 2048, the loop adds 2048 to \<^verbatim>\<open>sumsize\<close> and prints
  2048, and the whole turn of the loop is the one a datagram of exactly these 2048 bytes
  gives, so nothing tells the two apart. For a datagram of at most 2048 bytes the length
  of the payload is reported, added and printed.
\<close>

theorem oversized_datagram_truncated:
  "(BUFFERSIZE < length (payload d) \<longrightarrow>
      unat (fst (recvfrom e BUFFERSIZE a (Datagram d))) = 2048 \<and>
      fst (snd (recvfrom e BUFFERSIZE a (Datagram d))) = take 2048 (payload d) \<and>
      loop_body e q s (Datagram d)
        = loop_body e q s (Datagram (d\<lparr>payload := take BUFFERSIZE (payload d)\<rparr>)) \<and>
      sumsize (loop_body e q s (Datagram d)) = sumsize s + 2048 \<and>
      packets (loop_body e q s (Datagram d)) = packets s + 1 \<and>
      printed (loop_body e False s (Datagram d))
        = printed s @ [''received from '' @ inet_ntoa e (htonl e (src_addr d)) @ '':''
            @ show_nat (unat (htons e (src_port d))) @ '' (2048)'' @ [CHR 0x0A]]) \<and>
   (length (payload d) \<le> BUFFERSIZE \<longrightarrow>
      unat (fst (recvfrom e BUFFERSIZE a (Datagram d))) = length (payload d) \<and>
      fst (snd (recvfrom e BUFFERSIZE a (Datagram d))) = payload d \<and>
      sumsize (loop_body e q s (Datagram d)) = sumsize s + word_of_nat (length (payload d)) \<and>
      printed (loop_body e False s (Datagram d))
        = printed s @ [''received from '' @ inet_ntoa e (htonl e (src_addr d)) @ '':''
            @ show_nat (unat (htons e (src_port d))) @ '' ('' @ show_nat (length (payload d))
            @ '')'' @ [CHR 0x0A]])"
proof (intro conjI impI)
  assume big: "BUFFERSIZE < length (payload d)"
  show "unat (fst (recvfrom e BUFFERSIZE a (Datagram d))) = 2048"
    using big recvfrom_datagram_len [of e a d] by (simp add: BUFFERSIZE_def)
  show "fst (snd (recvfrom e BUFFERSIZE a (Datagram d))) = take 2048 (payload d)"
    by (simp add: recvfrom_def BUFFERSIZE_def)
  show "loop_body e q s (Datagram d)
        = loop_body e q s (Datagram (d\<lparr>payload := take BUFFERSIZE (payload d)\<rparr>))"
    using big by (simp add: loop_body_def recvfrom_def Let_def min_def)
  show "sumsize (loop_body e q s (Datagram d)) = sumsize s + 2048"
    using big by (simp add: loop_body_def recvfrom_def Let_def min_def BUFFERSIZE_def)
  show "packets (loop_body e q s (Datagram d)) = packets s + 1"
    by (simp add: loop_body_def recvfrom_def Let_def)
  show "printed (loop_body e False s (Datagram d))
        = printed s @ [''received from '' @ inet_ntoa e (htonl e (src_addr d)) @ '':''
            @ show_nat (unat (htons e (src_port d))) @ '' (2048)'' @ [CHR 0x0A]]"
    using big
    by (simp add: loop_body_def recvfrom_def Let_def min_def BUFFERSIZE_def packet_line_def
        show_nat_2048)
next
  assume small: "length (payload d) \<le> BUFFERSIZE"
  show "unat (fst (recvfrom e BUFFERSIZE a (Datagram d))) = length (payload d)"
    using small recvfrom_datagram_len [of e a d] by simp
  show "fst (snd (recvfrom e BUFFERSIZE a (Datagram d))) = payload d"
    using small by (simp add: recvfrom_def)
  show "sumsize (loop_body e q s (Datagram d)) = sumsize s + word_of_nat (length (payload d))"
    using small by (simp add: loop_body_def recvfrom_def Let_def min_def)
  have "unat (word_of_nat (length (payload d)) :: 64 word) = length (payload d)"
    using small by (simp add: unat_of_nat BUFFERSIZE_def)
  then show "printed (loop_body e False s (Datagram d))
        = printed s @ [''received from '' @ inet_ntoa e (htonl e (src_addr d)) @ '':''
            @ show_nat (unat (htons e (src_port d))) @ '' ('' @ show_nat (length (payload d))
            @ '')'' @ [CHR 0x0A]]"
    using small
    by (simp add: loop_body_def recvfrom_def Let_def min_def packet_line_def)
qed

text \<open>A datagram of 3000 bytes is counted as 2048 bytes; one of 100 bytes as 100.\<close>

theorem oversized_datagram_truncated_witness:
  "BUFFERSIZE < length (payload \<lparr>src_addr = 3221225985, src_port = 9, payload = replicate 3000 7\<rparr>) \<and>
   unat (fst (recvfrom BigEndian BUFFERSIZE \<lparr>sin_port = 0, sin_addr = 0\<rparr>
     (Datagram \<lparr>src_addr = 3221225985, src_port = 9, payload = replicate 3000 7\<rparr>))) = 2048 \<and>
   loop_body BigEndian False (loop_init \<lparr>sin_port = 0, sin_addr = 0\<rparr>)
       (Datagram \<lparr>src_addr = 3221225985, src_port = 9, payload = replicate 3000 7\<rparr>)
     = loop_body BigEndian False (loop_init \<lparr>sin_port = 0, sin_addr = 0\<rparr>)
       (Datagram \<lparr>src_addr = 3221225985, src_port = 9, payload = replicate 2048 7\<rparr>) \<and>
   length (payload \<lparr>src_addr = 3221225985, src_port = 9, payload = replicate 100 (7 :: 8 word)\<rparr>)
     \<le> BUFFERSIZE \<and>
   unat (fst (recvfrom BigEndian BUFFERSIZE \<lparr>sin_port = 0, sin_addr = 0\<rparr>
     (Datagram \<lparr>src_addr = 3221225985, src_port = 9, payload = replicate 100 7\<rparr>))) = 100"
  using oversized_datagram_truncated
      [of "\<lparr>src_addr = 3221225985, src_port = 9, payload = replicate 3000 7\<rparr>"
        BigEndian "\<lparr>sin_port = 0, sin_addr = 0\<rparr>" False "loop_init \<lparr>sin_port = 0, sin_addr = 0\<rparr>"]
    oversized_datagram_truncated
      [of "\<lparr>src_addr = 3221225985, src_port = 9, payload = replicate 100 7\<rparr>"
        BigEndian "\<lparr>sin_port = 0, sin_addr = 0\<rparr>" False "loop_init \<lparr>sin_port = 0, sin_addr = 0\<rparr>"]
  by (simp add: BUFFERSIZE_def)

subsection \<open>The port in the line of a packet\<close>

text \<open>
  Claim C4. The line of a packet shows the address in dotted-decimal notation and the
  length, but the port is printed as \<^verbatim>\<open>sin.sin_port\<close> holds it, in network byte order,
  with no \<^verbatim>\<open>ntohs\<close>. On a little-endian host a datagram of 10 bytes from 192.0.2.1,
  port 9, is reported with port 2304 = 9 * 256.
\<close>

theorem port_printed_in_network_order:
  "printed (loop_body LittleEndian False (loop_init \<lparr>sin_port = 0, sin_addr = 0\<rparr>)
     (Datagram \<lparr>src_addr = 3221225985, src_port = 9, payload = replicate 10 0\<rparr>))
   = [''received from 192.0.2.1:2304 (10)'' @ [CHR 0x0A]]"
  by (simp add: loop_body_def recvfrom_def loop_init_def BUFFERSIZE_def packet_line_def
      inet_ntoa_def htonl_def ntohl_def htons_def bswap16_def bswap32_def show_nat.simps
      digit_char_def)

subsection \<open>A failed call of \<^verbatim>\<open>recvfrom\<close>\<close>

lemma configure_plain: "configure [''mc4sv''] = Inr config_init"
  by (simp add: configure_def)

lemma aton_default: "aton_value ''224.0.0.1'' = Some 3758096385"
  by (simp add: aton_value_def aton_parts.simps scan_number_def isdigit_def isxdigit_def
      digit_val_def isspace_def)

lemma unat_minus_1_size_t: "unat (- 1 :: 64 word) = 18446744073709551615"
  by (simp add: unsigned_minus_1_eq_mask mask_eq_exp_minus_1)

lemma packet_line_10:
  "packet_line BigEndian \<lparr>sin_port = 9, sin_addr = 3221225985\<rparr> 10
     = ''received from 192.0.2.1:9 (10)'' @ [CHR 0x0A]"
  by (simp add: packet_line_def inet_ntoa_def ntohl_def show_nat.simps digit_char_def)

lemma packet_line_minus_1:
  "packet_line BigEndian \<lparr>sin_port = 9, sin_addr = 3221225985\<rparr> (- 1)
     = ''received from 192.0.2.1:9 (18446744073709551615)'' @ [CHR 0x0A]"
  by (simp add: packet_line_def inet_ntoa_def ntohl_def unat_minus_1_size_t show_nat.simps
      digit_char_def)

lemma summary_line_2_9:
  "summary_line 2 9 = [CHR 0x0A] @ ''2 packets (9 byte) received.'' @ [CHR 0x0A]"
  by (simp add: summary_line_def show_nat.simps digit_char_def)

lemma loop_body_failure:
  "packets (loop_body e q s RecvFailure) = packets s + 1 \<and>
   sumsize (loop_body e q s RecvFailure) = sumsize s - 1 \<and>
   receive_loop e q s (Recv RecvFailure # evs)
     = receive_loop e q (loop_body e q s RecvFailure) evs"
  by (simp add: loop_body_def recvfrom_def Let_def)

lemma session_never_fatal: "outcome (session ev c fd cs) \<noteq> Fatal f"
  by (simp add: session_def split: prod.split)

text \<open>
  Claim C2. The loop does not look at the result of \<^verbatim>\<open>recvfrom\<close>. In this run, with
  no arguments, one datagram of 10 bytes arrives, the next call of \<^verbatim>\<open>recvfrom\<close> fails,
  and then a signal comes. The failed call is counted as a packet, \<^verbatim>\<open>-1\<close> is added
  to \<^verbatim>\<open>sumsize\<close>, a line is printed for it with the sender of the datagram before, the
  loop goes on, and the program ends with the summary and status 0.
\<close>

theorem failed_recvfrom_is_counted:
  "main \<lparr>host_endian = BigEndian, getifaddrs_result = None,
         getaddrinfo_result = (\<lambda>s. Inr [\<lparr>ai_socket = 3, ai_bind = 0, ai_setsockopt = 0\<rparr>]),
         sigaction_result = (\<lambda>s. 0), setitimer_result = (\<lambda>t. 0),
         stack_cause = [], stack_fd = 0, stack_sin = \<lparr>sin_port = 0, sin_addr = 0\<rparr>,
         arrivals =
           [Recv (Datagram \<lparr>src_addr = 3221225985, src_port = 9, payload = replicate 10 0\<rparr>),
            Recv RecvFailure, Signal]\<rparr>
     [''mc4sv'']
   = \<lparr>outcome = Finished,
      calls = [Getaddrinfo ''discard'', Socket 3, Bind 3 0,
               AddMembership 3 \<lparr>imr_multiaddr = 3758096385, imr_interface = 0\<rparr> 0,
               Sigaction SIGALRM 0, Sigaction SIGINT 0, Setitimer 0 0, Close 3],
      stdout = [''received from 192.0.2.1:9 (10)'' @ [CHR 0x0A],
                ''received from 192.0.2.1:9 (18446744073709551615)'' @ [CHR 0x0A],
                [CHR 0x0A] @ ''2 packets (9 byte) received.'' @ [CHR 0x0A]]\<rparr>"
  by (simp add: main_def configure_plain config_init_def resolve_group_def inet_aton_def
      aton_default resolve_interface_def resolve_service_def open_socket_def
      install_handlers_def arm_timer_def session_def loop_init_def loop_body_def recvfrom_def
      BUFFERSIZE_def htons_def htonl_def packet_line_10 packet_line_minus_1 summary_line_2_9
      INADDR_ANY_def)

section \<open>Properties of the interface lookup\<close>

lemma strcmp_eq: "strcmp a b = 0 \<longleftrightarrow> a = b"
  by (induction a b rule: strcmp.induct) auto

lemma get_inaddr_loop_find:
  "get_inaddr_loop name ifs = find (\<lambda>x. carries_ipv4 x \<and> ifa_name x = name) ifs"
  by (induction ifs) (auto simp: carries_ipv4_def strcmp_eq split: option.splits)

text \<open>The entry the loop stops at has an address, which \<open>get_inaddr\<close> reads.\<close>

lemma get_inaddr_loop_Some:
  "get_inaddr_loop name ifs = Some ifa \<Longrightarrow>
     \<exists>sa. ifa_addr ifa = Some sa \<and> sa_family sa = AF_INET \<and> ifa_name ifa = name \<and> ifa \<in> set ifs"
  by (induction ifs) (auto simp: strcmp_eq split: option.splits if_splits)

lemma find_Some_split:
  "find P xs = Some x \<longleftrightarrow> (\<exists>pre post. xs = pre @ x # post \<and> P x \<and> (\<forall>y \<in> set pre. \<not> P y))"
proof (induction xs)
  case Nil
  then show ?case by simp
next
  case (Cons a xs)
  show ?case
  proof (cases "P a")
    case True
    have "(\<exists>pre post. a # xs = pre @ x # post \<and> P x \<and> (\<forall>y \<in> set pre. \<not> P y)) \<longleftrightarrow> x = a"
    proof
      assume "\<exists>pre post. a # xs = pre @ x # post \<and> P x \<and> (\<forall>y \<in> set pre. \<not> P y)"
      then obtain pre post where e: "a # xs = pre @ x # post" and n: "\<forall>y \<in> set pre. \<not> P y"
        by blast
      show "x = a"
      proof (cases pre)
        case Nil
        with e show ?thesis by simp
      next
        case (Cons b pre')
        with e n True show ?thesis by simp
      qed
    next
      assume "x = a"
      with True have "a # xs = [] @ x # xs \<and> P x \<and> (\<forall>y \<in> set []. \<not> P y)" by simp
      then show "\<exists>pre post. a # xs = pre @ x # post \<and> P x \<and> (\<forall>y \<in> set pre. \<not> P y)"
        by blast
    qed
    with True show ?thesis by auto
  next
    case False
    have "(\<exists>pre post. a # xs = pre @ x # post \<and> P x \<and> (\<forall>y \<in> set pre. \<not> P y))
          \<longleftrightarrow> (\<exists>pre post. xs = pre @ x # post \<and> P x \<and> (\<forall>y \<in> set pre. \<not> P y))"
    proof
      assume "\<exists>pre post. a # xs = pre @ x # post \<and> P x \<and> (\<forall>y \<in> set pre. \<not> P y)"
      then obtain pre post where e: "a # xs = pre @ x # post" and px: "P x"
        and n: "\<forall>y \<in> set pre. \<not> P y"
        by blast
      show "\<exists>pre post. xs = pre @ x # post \<and> P x \<and> (\<forall>y \<in> set pre. \<not> P y)"
      proof (cases pre)
        case Nil
        with e px False show ?thesis by simp
      next
        case (Cons b pre')
        with e n px have "xs = pre' @ x # post \<and> P x \<and> (\<forall>y \<in> set pre'. \<not> P y)" by simp
        then show ?thesis by blast
      qed
    next
      assume "\<exists>pre post. xs = pre @ x # post \<and> P x \<and> (\<forall>y \<in> set pre. \<not> P y)"
      then obtain pre post where "xs = pre @ x # post" "P x" "\<forall>y \<in> set pre. \<not> P y"
        by blast
      with False have "a # xs = (a # pre) @ x # post \<and> P x \<and> (\<forall>y \<in> set (a # pre). \<not> P y)"
        by simp
      then show "\<exists>pre post. a # xs = pre @ x # post \<and> P x \<and> (\<forall>y \<in> set pre. \<not> P y)"
        by blast
    qed
    with False Cons.IH show ?thesis by simp
  qed
qed

lemma configure_interface:
  "length name < IFNAMSIZ \<Longrightarrow> configure [p, ''-i'', name] = Inr (config_init\<lparr>ifname := name\<rparr>)"
  by (simp add: configure_def opt_cons_def)

text \<open>
  Claim C8. When \<^verbatim>\<open>getifaddrs\<close> gives the list \<open>ifs\<close>, \<^verbatim>\<open>get_inaddr\<close> returns the
  address \<open>a\<close> exactly when \<open>a\<close> is the IPv4 address of the first entry whose name is equal
  to the name asked for (the whole name: \<^verbatim>\<open>strcmp\<close> is 0 only for equal strings). It
  fails exactly when no entry has that name or no entry of that name has an IPv4 address;
  the failure is \<^verbatim>\<open>errx(1, ...)\<close>, and with the option \<^verbatim>\<open>-i\<close> the program ends with
  it after the call of \<^verbatim>\<open>getifaddrs\<close> and before any other call.
\<close>

theorem get_inaddr_exact:
  "(get_inaddr (Some ifs) name = Inr a \<longleftrightarrow>
      (\<exists>pre ifa post sa. ifs = pre @ ifa # post \<and> ifa_name ifa = name \<and>
         ifa_addr ifa = Some sa \<and> sa_family sa = AF_INET \<and> a = sin_addr (sa_in sa) \<and>
         (\<forall>x \<in> set pre. \<not> (carries_ipv4 x \<and> ifa_name x = name)))) \<and>
   (get_inaddr (Some ifs) name = Inl f \<longleftrightarrow>
      f = Errx 1 (name @ '': interface does not exist or is invalid'') \<and>
      ((\<forall>x \<in> set ifs. ifa_name x \<noteq> name) \<or>
       (\<forall>x \<in> set ifs. ifa_name x = name \<longrightarrow> \<not> carries_ipv4 x))) \<and>
   (get_inaddr (Some ifs) name = Inl f \<longrightarrow> exit_status f = 1) \<and>
   (name \<noteq> [] \<and> length name < IFNAMSIZ \<and> get_inaddr (getifaddrs_result ev) name = Inl f \<longrightarrow>
      main ev [p, ''-i'', name] = \<lparr>outcome = Fatal f, calls = [Getifaddrs], stdout = []\<rparr>)"
proof (intro conjI)
  let ?P = "\<lambda>x. carries_ipv4 x \<and> ifa_name x = name"
  show "get_inaddr (Some ifs) name = Inr a \<longleftrightarrow>
      (\<exists>pre ifa post sa. ifs = pre @ ifa # post \<and> ifa_name ifa = name \<and>
         ifa_addr ifa = Some sa \<and> sa_family sa = AF_INET \<and> a = sin_addr (sa_in sa) \<and>
         (\<forall>x \<in> set pre. \<not> (carries_ipv4 x \<and> ifa_name x = name)))"
  proof
    assume r: "get_inaddr (Some ifs) name = Inr a"
    then obtain ifa where l: "find ?P ifs = Some ifa"
      and a: "a = sin_addr (sa_in (the (ifa_addr ifa)))"
      by (auto simp: get_inaddr_def get_inaddr_loop_find split: option.splits)
    from l obtain pre post where s: "ifs = pre @ ifa # post" "?P ifa" "\<forall>x \<in> set pre. \<not> ?P x"
      unfolding find_Some_split by blast
    from s(2) obtain sa where "ifa_addr ifa = Some sa" "sa_family sa = AF_INET"
      by (auto simp: carries_ipv4_def split: option.splits)
    with s a show "\<exists>pre ifa post sa. ifs = pre @ ifa # post \<and> ifa_name ifa = name \<and>
         ifa_addr ifa = Some sa \<and> sa_family sa = AF_INET \<and> a = sin_addr (sa_in sa) \<and>
         (\<forall>x \<in> set pre. \<not> (carries_ipv4 x \<and> ifa_name x = name))"
      by auto
  next
    assume "\<exists>pre ifa post sa. ifs = pre @ ifa # post \<and> ifa_name ifa = name \<and>
         ifa_addr ifa = Some sa \<and> sa_family sa = AF_INET \<and> a = sin_addr (sa_in sa) \<and>
         (\<forall>x \<in> set pre. \<not> (carries_ipv4 x \<and> ifa_name x = name))"
    then obtain pre ifa post sa where s: "ifs = pre @ ifa # post" "ifa_name ifa = name"
      "ifa_addr ifa = Some sa" "sa_family sa = AF_INET" "a = sin_addr (sa_in sa)"
      "\<forall>x \<in> set pre. \<not> ?P x"
      by blast
    then have "?P ifa" by (simp add: carries_ipv4_def)
    with s(1,6) have "find ?P ifs = Some ifa"
      unfolding find_Some_split by blast
    with s(3,5) show "get_inaddr (Some ifs) name = Inr a"
      by (simp add: get_inaddr_def get_inaddr_loop_find)
  qed
  have none: "find ?P ifs = None \<longleftrightarrow>
      ((\<forall>x \<in> set ifs. ifa_name x \<noteq> name) \<or>
       (\<forall>x \<in> set ifs. ifa_name x = name \<longrightarrow> \<not> carries_ipv4 x))"
    by (auto simp: find_None_iff)
  show "get_inaddr (Some ifs) name = Inl f \<longleftrightarrow>
      f = Errx 1 (name @ '': interface does not exist or is invalid'') \<and>
      ((\<forall>x \<in> set ifs. ifa_name x \<noteq> name) \<or>
       (\<forall>x \<in> set ifs. ifa_name x = name \<longrightarrow> \<not> carries_ipv4 x))"
    unfolding none [symmetric]
    by (auto simp: get_inaddr_def get_inaddr_loop_find split: option.splits)
  show "get_inaddr (Some ifs) name = Inl f \<longrightarrow> exit_status f = 1"
    by (auto simp: get_inaddr_def split: option.splits)
  show "name \<noteq> [] \<and> length name < IFNAMSIZ \<and> get_inaddr (getifaddrs_result ev) name = Inl f \<longrightarrow>
      main ev [p, ''-i'', name] = \<lparr>outcome = Fatal f, calls = [Getifaddrs], stdout = []\<rparr>"
    by (simp add: main_def configure_interface resolve_group_def config_init_def inet_aton_def
        aton_default resolve_interface_def die_def)
qed

text \<open>
  Three entries: the loopback interface, and \<^verbatim>\<open>eth0\<close> with a link-layer address and
  with an IPv4 address. The name \<^verbatim>\<open>eth0\<close> gives the IPv4 address; the name
  \<^verbatim>\<open>eth\<close>, which only begins the name of an entry, fails.
\<close>

theorem get_inaddr_exact_witness:
  "get_inaddr
     (Some [\<lparr>ifa_name = ''lo'', ifa_addr = Some \<lparr>sa_family = 2, sa_in = \<lparr>sin_port = 0, sin_addr = 2130706433\<rparr>\<rparr>\<rparr>,
            \<lparr>ifa_name = ''eth0'', ifa_addr = Some \<lparr>sa_family = 17, sa_in = \<lparr>sin_port = 0, sin_addr = 0\<rparr>\<rparr>\<rparr>,
            \<lparr>ifa_name = ''eth0'', ifa_addr = Some \<lparr>sa_family = 2, sa_in = \<lparr>sin_port = 0, sin_addr = 3221225991\<rparr>\<rparr>\<rparr>])
     ''eth0'' = Inr 3221225991 \<and>
   get_inaddr
     (Some [\<lparr>ifa_name = ''lo'', ifa_addr = Some \<lparr>sa_family = 2, sa_in = \<lparr>sin_port = 0, sin_addr = 2130706433\<rparr>\<rparr>\<rparr>,
            \<lparr>ifa_name = ''eth0'', ifa_addr = Some \<lparr>sa_family = 17, sa_in = \<lparr>sin_port = 0, sin_addr = 0\<rparr>\<rparr>\<rparr>,
            \<lparr>ifa_name = ''eth0'', ifa_addr = Some \<lparr>sa_family = 2, sa_in = \<lparr>sin_port = 0, sin_addr = 3221225991\<rparr>\<rparr>\<rparr>])
     ''eth'' = Inl (Errx 1 ''eth: interface does not exist or is invalid'') \<and>
   exit_status (Errx 1 ''eth: interface does not exist or is invalid'') = 1 \<and>
   main \<lparr>host_endian = BigEndian,
         getifaddrs_result =
           Some [\<lparr>ifa_name = ''lo'', ifa_addr = Some \<lparr>sa_family = 2, sa_in = \<lparr>sin_port = 0, sin_addr = 2130706433\<rparr>\<rparr>\<rparr>,
                 \<lparr>ifa_name = ''eth0'', ifa_addr = Some \<lparr>sa_family = 17, sa_in = \<lparr>sin_port = 0, sin_addr = 0\<rparr>\<rparr>\<rparr>,
                 \<lparr>ifa_name = ''eth0'', ifa_addr = Some \<lparr>sa_family = 2, sa_in = \<lparr>sin_port = 0, sin_addr = 3221225991\<rparr>\<rparr>\<rparr>],
         getaddrinfo_result = (\<lambda>s. Inr [\<lparr>ai_socket = 3, ai_bind = 0, ai_setsockopt = 0\<rparr>]),
         sigaction_result = (\<lambda>s. 0), setitimer_result = (\<lambda>t. 0),
         stack_cause = [], stack_fd = 0, stack_sin = \<lparr>sin_port = 0, sin_addr = 0\<rparr>,
         arrivals = [Signal]\<rparr>
     [''mc4sv'', ''-i'', ''eth'']
   = \<lparr>outcome = Fatal (Errx 1 ''eth: interface does not exist or is invalid''),
      calls = [Getifaddrs], stdout = []\<rparr>"
proof -
  let ?lo = "\<lparr>ifa_name = ''lo'', ifa_addr = Some \<lparr>sa_family = 2, sa_in = \<lparr>sin_port = 0, sin_addr = 2130706433\<rparr>\<rparr>\<rparr>"
  let ?link = "\<lparr>ifa_name = ''eth0'', ifa_addr = Some \<lparr>sa_family = 17, sa_in = \<lparr>sin_port = 0, sin_addr = 0\<rparr>\<rparr>\<rparr>"
  let ?inet = "\<lparr>ifa_name = ''eth0'', ifa_addr = Some \<lparr>sa_family = 2, sa_in = \<lparr>sin_port = 0, sin_addr = 3221225991\<rparr>\<rparr>\<rparr>"
  let ?ifs = "[?lo, ?link, ?inet]"
  let ?f = "Errx 1 ''eth: interface does not exist or is invalid''"
  let ?ev = "\<lparr>host_endian = BigEndian, getifaddrs_result = Some ?ifs,
         getaddrinfo_result = (\<lambda>s. Inr [\<lparr>ai_socket = 3, ai_bind = 0, ai_setsockopt = 0\<rparr>]),
         sigaction_result = (\<lambda>s. 0), setitimer_result = (\<lambda>t. 0),
         stack_cause = [], stack_fd = 0, stack_sin = \<lparr>sin_port = 0, sin_addr = 0\<rparr>,
         arrivals = [Signal]\<rparr>"
  note t = get_inaddr_exact [where ifs = ?ifs and ev = ?ev and p = "''mc4sv''"]
  have "ifs = [?lo, ?link] @ ?inet # [] \<and> ifa_name ?inet = ''eth0'' \<and>
      ifa_addr ?inet = Some \<lparr>sa_family = 2, sa_in = \<lparr>sin_port = 0, sin_addr = 3221225991\<rparr>\<rparr> \<and>
      sa_family \<lparr>sa_family = 2, sa_in = \<lparr>sin_port = 0, sin_addr = 3221225991 :: 32 word\<rparr>\<rparr> = AF_INET \<and>
      (3221225991 :: 32 word) = sin_addr (sa_in \<lparr>sa_family = 2, sa_in = \<lparr>sin_port = 0, sin_addr = 3221225991\<rparr>\<rparr>) \<and>
      (\<forall>x \<in> set [?lo, ?link]. \<not> (carries_ipv4 x \<and> ifa_name x = ''eth0''))"
    if "ifs = ?ifs" for ifs
    using that by (simp add: carries_ipv4_def AF_INET_def)
  then have "\<exists>pre ifa post sa. ?ifs = pre @ ifa # post \<and> ifa_name ifa = ''eth0'' \<and>
      ifa_addr ifa = Some sa \<and> sa_family sa = AF_INET \<and> (3221225991 :: 32 word) = sin_addr (sa_in sa) \<and>
      (\<forall>x \<in> set pre. \<not> (carries_ipv4 x \<and> ifa_name x = ''eth0''))"
    by blast
  with t [where name = "''eth0''" and a = 3221225991]
  have a: "get_inaddr (Some ?ifs) ''eth0'' = Inr 3221225991"
    by blast
  have "\<forall>x \<in> set ?ifs. ifa_name x \<noteq> ''eth''"
    by simp
  with t [where name = "''eth''" and f = ?f]
  have b: "get_inaddr (Some ?ifs) ''eth'' = Inl ?f"
    by simp
  with t [where name = "''eth''" and f = ?f]
  have c: "exit_status ?f = 1"
    and d: "main ?ev [''mc4sv'', ''-i'', ''eth''] = \<lparr>outcome = Fatal ?f, calls = [Getifaddrs], stdout = []\<rparr>"
    by (simp_all add: IFNAMSIZ_def)
  from a b c d show ?thesis
    by blast
qed


section \<open>Properties of the candidate loop\<close>

lemma join_loop_all_fail:
  "\<forall>x \<in> set res. \<not> candidate_succeeds x \<Longrightarrow>
     join_loop imr cause fd res =
       (None, if res = [] then cause else failing_operation (last res),
        if res = [] then fd else ai_socket (last res), concat (map (attempt_calls imr) res))"
proof (induction res arbitrary: cause fd)
  case Nil
  then show ?case by simp
next
  case (Cons ai res)
  from Cons.prems have f: "\<not> candidate_succeeds ai"
    and r: "\<forall>x \<in> set res. \<not> candidate_succeeds x"
    by simp_all
  note ih = Cons.IH [OF r]
  from f show ?case
    by (auto simp: ih candidate_succeeds_def failing_operation_def attempt_calls_def)
qed

lemma join_loop_first_success:
  "\<forall>x \<in> set pre. \<not> candidate_succeeds x \<Longrightarrow> candidate_succeeds ai \<Longrightarrow>
     join_loop imr cause fd (pre @ ai # post) =
       (Some ai, if pre = [] then cause else failing_operation (last pre), ai_socket ai,
        concat (map (attempt_calls imr) pre) @ attempt_calls imr ai)"
proof (induction pre arbitrary: cause fd)
  case Nil
  then show ?case by (simp add: candidate_succeeds_def attempt_calls_def)
next
  case (Cons x pre)
  from Cons.prems have f: "\<not> candidate_succeeds x"
    and r: "\<forall>y \<in> set pre. \<not> candidate_succeeds y"
    by simp_all
  note ih = Cons.IH [OF r Cons.prems(2)]
  from f show ?case
    by (auto simp: ih candidate_succeeds_def failing_operation_def attempt_calls_def)
qed

lemma kernel_failed_attempt:
  "\<not> candidate_succeeds ai \<Longrightarrow> foldl kernel_step Map.empty (attempt_calls imr ai) = Map.empty"
  by (auto simp: candidate_succeeds_def attempt_calls_def)

lemma kernel_failed_attempts:
  "\<forall>x \<in> set res. \<not> candidate_succeeds x \<Longrightarrow>
     foldl kernel_step Map.empty (concat (map (attempt_calls imr) res)) = Map.empty"
  by (induction res) (simp_all add: kernel_failed_attempt)

lemma kernel_good_attempt:
  "candidate_succeeds ai \<Longrightarrow>
     foldl kernel_step Map.empty (attempt_calls imr ai)
       = [ai_socket ai \<mapsto> \<lparr>is_bound = True, membership = Some imr\<rparr>]"
  by (auto simp: candidate_succeeds_def attempt_calls_def)

lemma failing_operation_names:
  "failing_operation ai \<in> {''socket'', ''bind'', ''IP_ADD_MEMBERSHIP''}"
  by (simp add: failing_operation_def)

text \<open>
  Claim C5, as amended. When the list of candidates is not empty and every candidate
  fails, the loop ends with \<^verbatim>\<open>ai == NULL\<close> and \<^verbatim>\<open>cause\<close> names the call that
  failed for the last candidate, one of \<^verbatim>\<open>socket\<close>, \<^verbatim>\<open>bind\<close> and
  \<^verbatim>\<open>IP_ADD_MEMBERSHIP\<close>; the program ends through \<^verbatim>\<open>err(1, "%s", cause)\<close>. The
  candidates are tried in the order of the list, up to the first one for which the three
  calls succeed. Every socket of a failed candidate is closed: after the loop the kernel
  holds no socket when all failed, and exactly one, bound and joined to the group, when
  one succeeded; \<^verbatim>\<open>fd\<close> is that socket.
\<close>

theorem join_loop_candidates:
  "(res \<noteq> [] \<and> (\<forall>x \<in> set res. \<not> candidate_succeeds x) \<longrightarrow>
      join_loop imr cause fd res
        = (None, failing_operation (last res), ai_socket (last res),
           concat (map (attempt_calls imr) res)) \<and>
      failing_operation (last res) \<in> {''socket'', ''bind'', ''IP_ADD_MEMBERSHIP''} \<and>
      sockets_after (concat (map (attempt_calls imr) res)) = Map.empty \<and>
      open_socket ev c imr res cs
        = \<lparr>outcome = Fatal (Err 1 (failing_operation (last res))),
           calls = cs @ concat (map (attempt_calls imr) res), stdout = []\<rparr> \<and>
      exit_code (outcome (open_socket ev c imr res cs)) = Some 1) \<and>
   ((\<forall>x \<in> set pre. \<not> candidate_succeeds x) \<and> candidate_succeeds ai \<longrightarrow>
      fst (join_loop imr cause fd (pre @ ai # post)) = Some ai \<and>
      fst (snd (snd (join_loop imr cause fd (pre @ ai # post)))) = ai_socket ai \<and>
      snd (snd (snd (join_loop imr cause fd (pre @ ai # post))))
        = concat (map (attempt_calls imr) pre) @ attempt_calls imr ai \<and>
      sockets_after (snd (snd (snd (join_loop imr cause fd (pre @ ai # post)))))
        = [ai_socket ai \<mapsto> \<lparr>is_bound = True, membership = Some imr\<rparr>])"
proof (intro conjI impI)
  assume a: "res \<noteq> [] \<and> (\<forall>x \<in> set res. \<not> candidate_succeeds x)"
  then have j: "join_loop imr c0 f0 res
        = (None, failing_operation (last res), ai_socket (last res),
           concat (map (attempt_calls imr) res))" for c0 f0
    using join_loop_all_fail [of res imr c0 f0] by simp
  show "join_loop imr cause fd res
        = (None, failing_operation (last res), ai_socket (last res),
           concat (map (attempt_calls imr) res))"
    by (rule j)
  show "failing_operation (last res) \<in> {''socket'', ''bind'', ''IP_ADD_MEMBERSHIP''}"
    by (rule failing_operation_names)
  show "sockets_after (concat (map (attempt_calls imr) res)) = Map.empty"
    using a by (simp add: sockets_after_def kernel_failed_attempts)
  show o: "open_socket ev c imr res cs
        = \<lparr>outcome = Fatal (Err 1 (failing_operation (last res))),
           calls = cs @ concat (map (attempt_calls imr) res), stdout = []\<rparr>"
    by (simp add: open_socket_def j die_def)
  show "exit_code (outcome (open_socket ev c imr res cs)) = Some 1"
    by (simp add: o)
next
  assume a: "(\<forall>x \<in> set pre. \<not> candidate_succeeds x) \<and> candidate_succeeds ai"
  then have j: "join_loop imr cause fd (pre @ ai # post) =
       (Some ai, if pre = [] then cause else failing_operation (last pre), ai_socket ai,
        concat (map (attempt_calls imr) pre) @ attempt_calls imr ai)"
    using join_loop_first_success [of pre ai imr cause fd post] by simp
  show "fst (join_loop imr cause fd (pre @ ai # post)) = Some ai"
    by (simp add: j)
  show "fst (snd (snd (join_loop imr cause fd (pre @ ai # post)))) = ai_socket ai"
    by (simp add: j)
  show "snd (snd (snd (join_loop imr cause fd (pre @ ai # post))))
        = concat (map (attempt_calls imr) pre) @ attempt_calls imr ai"
    by (simp add: j)
  have "foldl kernel_step Map.empty (concat (map (attempt_calls imr) pre) @ attempt_calls imr ai)
        = [ai_socket ai \<mapsto> \<lparr>is_bound = True, membership = Some imr\<rparr>]"
    using a by (simp add: kernel_failed_attempts kernel_good_attempt)
  then show "sockets_after (snd (snd (snd (join_loop imr cause fd (pre @ ai # post)))))
        = [ai_socket ai \<mapsto> \<lparr>is_bound = True, membership = Some imr\<rparr>]"
    by (simp add: j sockets_after_def)
qed

text \<open>
  Two failing candidates (\<^verbatim>\<open>socket\<close> fails, then \<^verbatim>\<open>bind\<close> fails), alone and
  followed by two that would succeed.
\<close>

theorem join_loop_candidates_witness:
  "join_loop \<lparr>imr_multiaddr = 3758096385, imr_interface = 0\<rparr> [] 0
     [\<lparr>ai_socket = - 1, ai_bind = 0, ai_setsockopt = 0\<rparr>,
      \<lparr>ai_socket = 3, ai_bind = - 1, ai_setsockopt = 0\<rparr>]
   = (None, ''bind'', 3, [Socket (- 1), Socket 3, Bind 3 (- 1), Close 3]) \<and>
   sockets_after [Socket (- 1), Socket 3, Bind 3 (- 1), Close 3] = Map.empty \<and>
   fst (join_loop \<lparr>imr_multiaddr = 3758096385, imr_interface = 0\<rparr> [] 0
     ([\<lparr>ai_socket = - 1, ai_bind = 0, ai_setsockopt = 0\<rparr>,
       \<lparr>ai_socket = 3, ai_bind = - 1, ai_setsockopt = 0\<rparr>]
      @ \<lparr>ai_socket = 3, ai_bind = 0, ai_setsockopt = 0\<rparr>
      # [\<lparr>ai_socket = 4, ai_bind = 0, ai_setsockopt = 0\<rparr>]))
   = Some \<lparr>ai_socket = 3, ai_bind = 0, ai_setsockopt = 0\<rparr> \<and>
   sockets_after (snd (snd (snd (join_loop \<lparr>imr_multiaddr = 3758096385, imr_interface = 0\<rparr> [] 0
     ([\<lparr>ai_socket = - 1, ai_bind = 0, ai_setsockopt = 0\<rparr>,
       \<lparr>ai_socket = 3, ai_bind = - 1, ai_setsockopt = 0\<rparr>]
      @ \<lparr>ai_socket = 3, ai_bind = 0, ai_setsockopt = 0\<rparr>
      # [\<lparr>ai_socket = 4, ai_bind = 0, ai_setsockopt = 0\<rparr>])))))
   = [3 \<mapsto> \<lparr>is_bound = True, membership = Some \<lparr>imr_multiaddr = 3758096385, imr_interface = 0\<rparr>\<rparr>]"
proof -
  let ?imr = "\<lparr>imr_multiaddr = 3758096385, imr_interface = 0\<rparr>"
  let ?pre = "[\<lparr>ai_socket = - 1, ai_bind = 0, ai_setsockopt = 0\<rparr>,
               \<lparr>ai_socket = 3, ai_bind = - 1, ai_setsockopt = 0\<rparr>]"
  let ?ai = "\<lparr>ai_socket = 3, ai_bind = 0, ai_setsockopt = 0\<rparr>"
  have f: "?pre \<noteq> [] \<and> (\<forall>x \<in> set ?pre. \<not> candidate_succeeds x)"
    by (simp add: candidate_succeeds_def)
  have g: "(\<forall>x \<in> set ?pre. \<not> candidate_succeeds x) \<and> candidate_succeeds ?ai"
    by (simp add: candidate_succeeds_def)
  note t = join_loop_candidates [where res = ?pre and pre = ?pre and ai = ?ai and imr = ?imr
      and cause = "[]" and fd = 0 and post = "[\<lparr>ai_socket = 4, ai_bind = 0, ai_setsockopt = 0\<rparr>]"]
  from t f have "join_loop ?imr [] 0 ?pre
        = (None, failing_operation (last ?pre), ai_socket (last ?pre),
           concat (map (attempt_calls ?imr) ?pre))"
    and "sockets_after (concat (map (attempt_calls ?imr) ?pre)) = Map.empty"
    by blast+
  moreover from t g
  have "fst (join_loop ?imr [] 0 (?pre @ ?ai # [\<lparr>ai_socket = 4, ai_bind = 0, ai_setsockopt = 0\<rparr>])) = Some ?ai"
    and "sockets_after (snd (snd (snd (join_loop ?imr [] 0 (?pre @ ?ai # [\<lparr>ai_socket = 4, ai_bind = 0, ai_setsockopt = 0\<rparr>])))))
        = [ai_socket ?ai \<mapsto> \<lparr>is_bound = True, membership = Some ?imr\<rparr>]"
    by blast+
  ultimately show ?thesis
    by (simp add: failing_operation_def attempt_calls_def)
qed

text \<open>
  When \<^verbatim>\<open>setsockopt\<close> fails for the only candidate, the cause is
  \<^verbatim>\<open>IP_ADD_MEMBERSHIP\<close>, not \<^verbatim>\<open>join\<close>.
\<close>

theorem join_cause_counterexample:
  "fst (join_loop \<lparr>imr_multiaddr = 3758096385, imr_interface = 0\<rparr> [] 0
     [\<lparr>ai_socket = 3, ai_bind = 0, ai_setsockopt = - 1\<rparr>]) = None \<and>
   fst (snd (join_loop \<lparr>imr_multiaddr = 3758096385, imr_interface = 0\<rparr> [] 0
     [\<lparr>ai_socket = 3, ai_bind = 0, ai_setsockopt = - 1\<rparr>])) = ''IP_ADD_MEMBERSHIP'' \<and>
   ''IP_ADD_MEMBERSHIP'' \<notin> {''socket'', ''bind'', ''join''}"
  by simp


section \<open>Properties of the configuration\<close>

lemma getopt_t:
  "getopt_scan ''i:qt:'' [] (''-t'' # s # rest)
     = opt_cons (CHR ''t'', s) (getopt_scan ''i:qt:'' [] rest)"
  by simp



lemma getopt_operand:
  "s = [] \<or> hd s \<noteq> CHR ''-'' \<Longrightarrow> getopt_scan ''i:qt:'' [] (s # rest) = ([], s # rest)"
  by (cases s) (auto split: list.splits)

lemma configure_timeout_rejected:
  "3600 < atoi s \<Longrightarrow>
     configure (p # ''-t'' # s # rest) = Inl (Errx 1 (s @ '': invalid timeout (>3600)''))"
  by (simp add: configure_def getopt_t opt_cons_def del: getopt_scan.simps)

lemma configure_timeout_accepted:
  "atoi s \<le> 3600 \<Longrightarrow> configure [p, ''-t'', s] = Inr (config_init\<lparr>timeout := atoi s\<rparr>)"
  by (simp add: configure_def opt_cons_def)






lemma configure_operands:
  "s = [] \<or> hd s \<noteq> CHR ''-'' \<Longrightarrow> configure (p # s # rest) = operands config_init (s # rest)"
  by (simp add: configure_def getopt_operand del: getopt_scan.simps)

lemma atoi_no_number:
  "s = [] \<or> (\<not> isspace (hd s) \<and> hd s \<noteq> CHR ''-'' \<and> hd s \<noteq> CHR ''+'' \<and> \<not> isdigit (hd s))
     \<Longrightarrow> atoi s = 0"
  by (cases s) (auto simp: atoi_def)

lemma atoi_examples:
  "atoi ''3600'' = 3600" "atoi ''3601'' = 3601" "atoi ''-5'' = - 5" "atoi ''abc'' = 0"
  by (simp_all add: atoi_def isspace_def isdigit_def digit_val_def)

lemma main_configure_failure:
  "configure argv = Inl f \<Longrightarrow> main ev argv = \<lparr>outcome = Fatal f, calls = [], stdout = []\<rparr>"
  by (simp add: main_def die_def)

text \<open>
  Claim C3, as amended. The only check of the argument of \<^verbatim>\<open>-t\<close> is
  \<^verbatim>\<open>timeout > 3600\<close> on the value of \<^verbatim>\<open>atoi\<close>. An argument whose value is 3601
  or more (up to \<^verbatim>\<open>INT_MAX\<close>) ends the program with \<^verbatim>\<open>errx(1, ...)\<close> before any
  call is made; 3600 is accepted. Every value of at most 3600 is accepted and becomes the
  timeout, negative values too; an argument that does not begin with white space, a sign
  or a digit has the value 0 and is accepted as the timeout 0.
\<close>

theorem timeout_option_check:
  "(3600 < atoi s \<and> atoi s \<le> INT_MAX \<longrightarrow>
      main ev (p # ''-t'' # s # rest)
        = \<lparr>outcome = Fatal (Errx 1 (s @ '': invalid timeout (>3600)'')), calls = [], stdout = []\<rparr> \<and>
      exit_code (outcome (main ev (p # ''-t'' # s # rest))) = Some 1) \<and>
   (INT_MIN \<le> atoi s \<and> atoi s \<le> 3600 \<longrightarrow>
      configure [p, ''-t'', s] = Inr (config_init\<lparr>timeout := atoi s\<rparr>) \<and>
      main ev [p, ''-t'', s] = resolve_group ev (config_init\<lparr>timeout := atoi s\<rparr>)) \<and>
   (s = [] \<or> (\<not> isspace (hd s) \<and> hd s \<noteq> CHR ''-'' \<and> hd s \<noteq> CHR ''+'' \<and> \<not> isdigit (hd s)) \<longrightarrow>
      atoi s = 0 \<and> configure [p, ''-t'', s] = Inr (config_init\<lparr>timeout := 0\<rparr>)) \<and>
   atoi ''3600'' = 3600 \<and> atoi ''3601'' = 3601"
proof (intro conjI impI)
  assume "3600 < atoi s \<and> atoi s \<le> INT_MAX"
  then have c: "configure (p # ''-t'' # s # rest) = Inl (Errx 1 (s @ '': invalid timeout (>3600)''))"
    by (simp add: configure_timeout_rejected)
  show m: "main ev (p # ''-t'' # s # rest)
        = \<lparr>outcome = Fatal (Errx 1 (s @ '': invalid timeout (>3600)'')), calls = [], stdout = []\<rparr>"
    by (rule main_configure_failure [OF c])
  show "exit_code (outcome (main ev (p # ''-t'' # s # rest))) = Some 1"
    by (simp add: m)
next
  assume "INT_MIN \<le> atoi s \<and> atoi s \<le> 3600"
  then show c: "configure [p, ''-t'', s] = Inr (config_init\<lparr>timeout := atoi s\<rparr>)"
    by (simp add: configure_timeout_accepted)
  show "main ev [p, ''-t'', s] = resolve_group ev (config_init\<lparr>timeout := atoi s\<rparr>)"
    by (simp add: main_def c)
next
  assume a: "s = [] \<or> (\<not> isspace (hd s) \<and> hd s \<noteq> CHR ''-'' \<and> hd s \<noteq> CHR ''+'' \<and> \<not> isdigit (hd s))"
  show z: "atoi s = 0"
    by (rule atoi_no_number [OF a])
  show "configure [p, ''-t'', s] = Inr (config_init\<lparr>timeout := 0\<rparr>)"
    using configure_timeout_accepted [of s p] by (simp add: z)
next
  show "atoi ''3600'' = 3600" by (rule atoi_examples)
  show "atoi ''3601'' = 3601" by (rule atoi_examples)
qed

text \<open>The arguments \<^verbatim>\<open>3601\<close>, \<^verbatim>\<open>3600\<close> and \<^verbatim>\<open>abc\<close>.\<close>

theorem timeout_option_check_witness:
  "3600 < atoi ''3601'' \<and> atoi ''3601'' \<le> INT_MAX \<and>
   main \<lparr>host_endian = BigEndian, getifaddrs_result = None,
         getaddrinfo_result = (\<lambda>s. Inr [\<lparr>ai_socket = 3, ai_bind = 0, ai_setsockopt = 0\<rparr>]),
         sigaction_result = (\<lambda>s. 0), setitimer_result = (\<lambda>t. 0),
         stack_cause = [], stack_fd = 0, stack_sin = \<lparr>sin_port = 0, sin_addr = 0\<rparr>,
         arrivals = [Signal]\<rparr>
     [''mc4sv'', ''-t'', ''3601'', ''224.0.0.1'']
     = \<lparr>outcome = Fatal (Errx 1 ''3601: invalid timeout (>3600)''), calls = [], stdout = []\<rparr> \<and>
   INT_MIN \<le> atoi ''3600'' \<and> atoi ''3600'' \<le> 3600 \<and>
   configure [''mc4sv'', ''-t'', ''3600''] = Inr (config_init\<lparr>timeout := 3600\<rparr>) \<and>
   \<not> isspace (hd ''abc'') \<and> hd ''abc'' \<noteq> CHR ''-'' \<and> hd ''abc'' \<noteq> CHR ''+'' \<and> \<not> isdigit (hd ''abc'') \<and>
   configure [''mc4sv'', ''-t'', ''abc''] = Inr (config_init\<lparr>timeout := 0\<rparr>)"
proof -
  let ?ev = "\<lparr>host_endian = BigEndian, getifaddrs_result = None,
         getaddrinfo_result = (\<lambda>s. Inr [\<lparr>ai_socket = 3, ai_bind = 0, ai_setsockopt = 0\<rparr>]),
         sigaction_result = (\<lambda>s. 0), setitimer_result = (\<lambda>t. 0),
         stack_cause = [], stack_fd = 0, stack_sin = \<lparr>sin_port = 0, sin_addr = 0\<rparr>,
         arrivals = [Signal]\<rparr>"
  have h1: "3600 < atoi ''3601'' \<and> atoi ''3601'' \<le> INT_MAX"
    by (simp add: atoi_examples INT_MAX_def)
  have h2: "INT_MIN \<le> atoi ''3600'' \<and> atoi ''3600'' \<le> 3600"
    by (simp add: atoi_examples INT_MIN_def)
  have h3: "\<not> isspace (hd ''abc'') \<and> hd ''abc'' \<noteq> CHR ''-'' \<and> hd ''abc'' \<noteq> CHR ''+'' \<and> \<not> isdigit (hd ''abc'')"
    by (simp add: isspace_def isdigit_def)
  from h1 timeout_option_check [of "''3601''" ?ev "''mc4sv''" "[''224.0.0.1'']"]
  have a: "main ?ev [''mc4sv'', ''-t'', ''3601'', ''224.0.0.1'']
     = \<lparr>outcome = Fatal (Errx 1 ''3601: invalid timeout (>3600)''), calls = [], stdout = []\<rparr>"
    by simp
  from h2 timeout_option_check [of "''3600''" ?ev "''mc4sv''" "[]"]
  have b: "configure [''mc4sv'', ''-t'', ''3600''] = Inr (config_init\<lparr>timeout := 3600\<rparr>)"
    by (simp add: atoi_examples)
  from h3 timeout_option_check [of "''abc''" ?ev "''mc4sv''" "[]"]
  have c: "configure [''mc4sv'', ''-t'', ''abc''] = Inr (config_init\<lparr>timeout := 0\<rparr>)"
    by simp
  from h1 h2 h3 a b c show ?thesis
    by blast
qed

text \<open>
  A negative timeout and a timeout that is not a number pass the configuration: the
  variables are set and no failure is raised.
\<close>

theorem timeout_negative_counterexample:
  "configure [''mc4sv'', ''-t'', ''-5''] = Inr (config_init\<lparr>timeout := - 5\<rparr>) \<and>
   configure [''mc4sv'', ''-t'', ''abc''] = Inr (config_init\<lparr>timeout := 0\<rparr>)"
  by (simp add: configure_timeout_accepted atoi_examples)









section \<open>Properties of the group check\<close>

lemma calls_session: "\<exists>r. calls (session ev c fd cs) = cs @ r"
  by (simp add: session_def split: prod.split)

lemma calls_arm_timer: "\<exists>r. calls (arm_timer ev c fd cs) = cs @ r"
  using calls_session [of ev c fd "cs @ [Setitimer (timeout c) (setitimer_result ev (timeout c))]"]
  by (auto simp: arm_timer_def Let_def die_def)

lemma calls_install_handlers: "\<exists>r. calls (install_handlers ev c fd cs) = cs @ r"
  using calls_arm_timer [of ev c fd
      "cs @ [Sigaction SIGALRM (sigaction_result ev SIGALRM),
             Sigaction SIGINT (sigaction_result ev SIGINT)]"]
  by (auto simp: install_handlers_def Let_def die_def)

lemma calls_open_socket:
  "\<exists>r. calls (open_socket ev c imr res cs)
     = cs @ snd (snd (snd (join_loop imr (stack_cause ev) (stack_fd ev) res))) @ r"
proof -
  obtain ai cause fd js
    where j: "join_loop imr (stack_cause ev) (stack_fd ev) res = (ai, cause, fd, js)"
    by (cases "join_loop imr (stack_cause ev) (stack_fd ev) res") auto
  show ?thesis
    using calls_install_handlers [of ev c fd "cs @ js"]
    by (auto simp: open_socket_def j die_def)
qed

lemma calls_resolve_service:
  "\<exists>r. calls (resolve_service ev c imr cs) = cs @ Getaddrinfo (service c) # r"
proof (cases "getaddrinfo_result ev (service c)")
  case (Inl msg)
  then show ?thesis by (simp add: resolve_service_def die_def)
next
  case (Inr res)
  then show ?thesis
    using calls_open_socket [of ev c imr res "cs @ [Getaddrinfo (service c)]"]
    by (auto simp: resolve_service_def)
qed

lemma configure_group: "s = [] \<or> hd s \<noteq> CHR ''-'' \<Longrightarrow> configure [p, s] = Inr (config_init\<lparr>mcast := s\<rparr>)"
  by (simp add: configure_operands)

lemma aton_examples:
  "aton_value ''10.0.0.1'' = Some 167772161" "aton_value ''1'' = Some 1"
  "aton_value ''224.1'' = Some 3758096385" "aton_value ''0xE0000001'' = Some 3758096385"
  "aton_value ''224.0.0.256'' = None" "aton_value ''group'' = None"
  by (simp_all add: aton_value_def aton_parts.simps scan_number_def isdigit_def isxdigit_def
      digit_val_def xdigit_val_def isspace_def)

lemma join_loop_attempts_join:
  "ai_socket ai \<noteq> - 1 \<Longrightarrow> ai_bind ai \<noteq> - 1 \<Longrightarrow>
     AddMembership (ai_socket ai) imr (ai_setsockopt ai)
       \<in> set (snd (snd (snd (join_loop imr cause fd (ai # rest)))))"
  by (auto split: prod.splits)

text \<open>
  Claim C10. The group is accepted exactly when \<^verbatim>\<open>inet_aton\<close> parses it. A string
  that does not parse ends the program with \<^verbatim>\<open>errx(1, ...)\<close> before any call. A
  string that parses lets the program go on with the parsed address, whatever it is: the
  next call is \<^verbatim>\<open>getaddrinfo\<close>, and for a candidate whose socket is created and
  bound, \<^verbatim>\<open>setsockopt(IP_ADD_MEMBERSHIP)\<close> is called with this address. The unicast
  address 10.0.0.1 and the short forms \<^verbatim>\<open>1\<close> and \<^verbatim>\<open>224.1\<close> parse; 10.0.0.1 and
  0.0.0.1 are not multicast addresses.
\<close>

theorem group_validation:
  "(aton_value (mcast c) = None \<longrightarrow>
      resolve_group ev c
        = \<lparr>outcome = Fatal (Errx 1 (mcast c @ '': invalid multicast group'')), calls = [], stdout = []\<rparr> \<and>
      exit_code (outcome (resolve_group ev c)) = Some 1) \<and>
   (aton_value (mcast c) = Some v \<longrightarrow>
      resolve_group ev c = resolve_interface ev c (htonl (host_endian ev) (word_of_nat v))) \<and>
   ((s = [] \<or> hd s \<noteq> CHR ''-'') \<and> aton_value s = None \<longrightarrow>
      main ev [p, s]
        = \<lparr>outcome = Fatal (Errx 1 (s @ '': invalid multicast group'')), calls = [], stdout = []\<rparr>) \<and>
   ((s = [] \<or> hd s \<noteq> CHR ''-'') \<and> aton_value s = Some v \<longrightarrow>
      main ev [p, s]
        = resolve_service ev (config_init\<lparr>mcast := s\<rparr>)
            \<lparr>imr_multiaddr = htonl (host_endian ev) (word_of_nat v),
               imr_interface = htonl (host_endian ev) INADDR_ANY\<rparr> [] \<and>
      (\<exists>r. calls (main ev [p, s]) = Getaddrinfo ''discard'' # r)) \<and>
   ((s = [] \<or> hd s \<noteq> CHR ''-'') \<and> aton_value s = Some v \<and>
    getaddrinfo_result ev ''discard'' = Inr (ai # rest) \<and> ai_socket ai \<noteq> - 1 \<and> ai_bind ai \<noteq> - 1 \<longrightarrow>
      AddMembership (ai_socket ai)
          \<lparr>imr_multiaddr = htonl (host_endian ev) (word_of_nat v),
             imr_interface = htonl (host_endian ev) INADDR_ANY\<rparr> (ai_setsockopt ai)
        \<in> set (calls (main ev [p, s]))) \<and>
   aton_value ''10.0.0.1'' = Some 167772161 \<and> \<not> IN_MULTICAST 167772161 \<and>
   aton_value ''1'' = Some 1 \<and> \<not> IN_MULTICAST 1 \<and> aton_value ''224.1'' = Some 3758096385"
proof (intro conjI impI)
  assume n: "aton_value (mcast c) = None"
  show r: "resolve_group ev c
        = \<lparr>outcome = Fatal (Errx 1 (mcast c @ '': invalid multicast group'')), calls = [], stdout = []\<rparr>"
    by (simp add: resolve_group_def inet_aton_def n die_def)
  show "exit_code (outcome (resolve_group ev c)) = Some 1"
    by (simp add: r)
next
  assume "aton_value (mcast c) = Some v"
  then show "resolve_group ev c = resolve_interface ev c (htonl (host_endian ev) (word_of_nat v))"
    by (simp add: resolve_group_def inet_aton_def)
next
  assume a: "(s = [] \<or> hd s \<noteq> CHR ''-'') \<and> aton_value s = None"
  then have "configure [p, s] = Inr (config_init\<lparr>mcast := s\<rparr>)"
    by (simp add: configure_group)
  with a show "main ev [p, s]
        = \<lparr>outcome = Fatal (Errx 1 (s @ '': invalid multicast group'')), calls = [], stdout = []\<rparr>"
    by (simp add: main_def resolve_group_def inet_aton_def die_def config_init_def)
next
  assume a: "(s = [] \<or> hd s \<noteq> CHR ''-'') \<and> aton_value s = Some v"
  then have "configure [p, s] = Inr (config_init\<lparr>mcast := s\<rparr>)"
    by (simp add: configure_group)
  with a show m: "main ev [p, s]
        = resolve_service ev (config_init\<lparr>mcast := s\<rparr>)
            \<lparr>imr_multiaddr = htonl (host_endian ev) (word_of_nat v),
               imr_interface = htonl (host_endian ev) INADDR_ANY\<rparr> []"
    by (simp add: main_def resolve_group_def inet_aton_def resolve_interface_def config_init_def)
  show "\<exists>r. calls (main ev [p, s]) = Getaddrinfo ''discard'' # r"
    unfolding m
    using calls_resolve_service [of ev "config_init\<lparr>mcast := s\<rparr>" _ "[]"]
    by (simp add: config_init_def)
next
  let ?imr = "\<lparr>imr_multiaddr = htonl (host_endian ev) (word_of_nat v),
               imr_interface = htonl (host_endian ev) INADDR_ANY\<rparr>"
  assume a: "(s = [] \<or> hd s \<noteq> CHR ''-'') \<and> aton_value s = Some v \<and>
    getaddrinfo_result ev ''discard'' = Inr (ai # rest) \<and> ai_socket ai \<noteq> - 1 \<and> ai_bind ai \<noteq> - 1"
  then have "configure [p, s] = Inr (config_init\<lparr>mcast := s\<rparr>)"
    by (simp add: configure_group)
  with a have m: "main ev [p, s]
      = open_socket ev (config_init\<lparr>mcast := s\<rparr>) ?imr (ai # rest) [Getaddrinfo ''discard'']"
    by (simp add: main_def resolve_group_def inet_aton_def resolve_interface_def
        resolve_service_def config_init_def)
  obtain r where "calls (main ev [p, s])
      = [Getaddrinfo ''discard'']
        @ snd (snd (snd (join_loop ?imr (stack_cause ev) (stack_fd ev) (ai # rest)))) @ r"
    unfolding m
    using calls_open_socket [of ev "config_init\<lparr>mcast := s\<rparr>" ?imr "ai # rest" "[Getaddrinfo ''discard'']"]
    by blast
  moreover have "AddMembership (ai_socket ai) ?imr (ai_setsockopt ai)
       \<in> set (snd (snd (snd (join_loop ?imr (stack_cause ev) (stack_fd ev) (ai # rest)))))"
    using a by (intro join_loop_attempts_join) simp_all
  ultimately show "AddMembership (ai_socket ai) ?imr (ai_setsockopt ai) \<in> set (calls (main ev [p, s]))"
    by simp
next
  show "aton_value ''10.0.0.1'' = Some 167772161" by (rule aton_examples)
  show "\<not> IN_MULTICAST 167772161" by (simp add: IN_MULTICAST_def)
  show "aton_value ''1'' = Some 1" by (rule aton_examples)
  show "\<not> IN_MULTICAST 1" by (simp add: IN_MULTICAST_def)
  show "aton_value ''224.1'' = Some 3758096385" by (rule aton_examples)
qed

text \<open>
  The operand \<^verbatim>\<open>group\<close> is refused; the operand \<^verbatim>\<open>10.0.0.1\<close> reaches the join,
  which the kernel refuses in this run.
\<close>

theorem group_validation_witness:
  "(''group'' = [] \<or> hd ''group'' \<noteq> CHR ''-'') \<and> aton_value ''group'' = None \<and>
   main \<lparr>host_endian = BigEndian, getifaddrs_result = None,
         getaddrinfo_result = (\<lambda>s. Inr [\<lparr>ai_socket = 3, ai_bind = 0, ai_setsockopt = - 1\<rparr>]),
         sigaction_result = (\<lambda>s. 0), setitimer_result = (\<lambda>t. 0),
         stack_cause = [], stack_fd = 0, stack_sin = \<lparr>sin_port = 0, sin_addr = 0\<rparr>,
         arrivals = [Signal]\<rparr>
     [''mc4sv'', ''group'']
     = \<lparr>outcome = Fatal (Errx 1 ''group: invalid multicast group''), calls = [], stdout = []\<rparr> \<and>
   (''10.0.0.1'' = [] \<or> hd ''10.0.0.1'' \<noteq> CHR ''-'') \<and> aton_value ''10.0.0.1'' = Some 167772161 \<and>
   AddMembership 3 \<lparr>imr_multiaddr = 167772161, imr_interface = 0\<rparr> (- 1)
     \<in> set (calls (main \<lparr>host_endian = BigEndian, getifaddrs_result = None,
         getaddrinfo_result = (\<lambda>s. Inr [\<lparr>ai_socket = 3, ai_bind = 0, ai_setsockopt = - 1\<rparr>]),
         sigaction_result = (\<lambda>s. 0), setitimer_result = (\<lambda>t. 0),
         stack_cause = [], stack_fd = 0, stack_sin = \<lparr>sin_port = 0, sin_addr = 0\<rparr>,
         arrivals = [Signal]\<rparr>
     [''mc4sv'', ''10.0.0.1'']))"
proof -
  let ?ev = "\<lparr>host_endian = BigEndian, getifaddrs_result = None,
         getaddrinfo_result = (\<lambda>s. Inr [\<lparr>ai_socket = 3, ai_bind = 0, ai_setsockopt = - 1\<rparr>]),
         sigaction_result = (\<lambda>s. 0), setitimer_result = (\<lambda>t. 0),
         stack_cause = [], stack_fd = 0, stack_sin = \<lparr>sin_port = 0, sin_addr = 0\<rparr>,
         arrivals = [Signal]\<rparr>"
  have h1: "(''group'' = [] \<or> hd ''group'' \<noteq> CHR ''-'') \<and> aton_value ''group'' = None"
    by (simp add: aton_examples)
  from h1 group_validation [where s = "''group''" and ev = ?ev and p = "''mc4sv''"]
  have a: "main ?ev [''mc4sv'', ''group'']
     = \<lparr>outcome = Fatal (Errx 1 ''group: invalid multicast group''), calls = [], stdout = []\<rparr>"
    by simp
  have h2: "(''10.0.0.1'' = [] \<or> hd ''10.0.0.1'' \<noteq> CHR ''-'') \<and>
      aton_value ''10.0.0.1'' = Some 167772161 \<and>
      getaddrinfo_result ?ev ''discard''
        = Inr (\<lparr>ai_socket = 3, ai_bind = 0, ai_setsockopt = - 1\<rparr> # []) \<and>
      ai_socket \<lparr>ai_socket = 3, ai_bind = 0, ai_setsockopt = - 1\<rparr> \<noteq> - 1 \<and>
      ai_bind \<lparr>ai_socket = 3, ai_bind = 0, ai_setsockopt = - 1\<rparr> \<noteq> - 1"
    by (simp add: aton_examples)
  from h2 group_validation [where s = "''10.0.0.1''" and ev = ?ev and p = "''mc4sv''"
      and v = 167772161 and ai = "\<lparr>ai_socket = 3, ai_bind = 0, ai_setsockopt = - 1\<rparr>" and rest = "[]"]
  have "AddMembership (ai_socket \<lparr>ai_socket = 3, ai_bind = 0, ai_setsockopt = - 1\<rparr>)
          \<lparr>imr_multiaddr = htonl (host_endian ?ev) (word_of_nat 167772161),
             imr_interface = htonl (host_endian ?ev) INADDR_ANY\<rparr>
          (ai_setsockopt \<lparr>ai_socket = 3, ai_bind = 0, ai_setsockopt = - 1\<rparr>)
        \<in> set (calls (main ?ev [''mc4sv'', ''10.0.0.1'']))"
    by blast
  then have b: "AddMembership 3 \<lparr>imr_multiaddr = 167772161, imr_interface = 0\<rparr> (- 1)
     \<in> set (calls (main ?ev [''mc4sv'', ''10.0.0.1'']))"
    by (simp add: htonl_def INADDR_ANY_def)
  from h1 h2 a b show ?thesis
    by blast
qed


section \<open>Properties of the end of the session\<close>

lemma receive_loop_cancelled: "snd (receive_loop e q s evs) \<longleftrightarrow> Signal \<in> set evs"
  by (induction e q s evs rule: receive_loop.induct) simp_all

lemma loop_body_quiet: "printed (loop_body e True s a) = printed s"
  by (simp add: loop_body_def Let_def split: prod.split)

lemma receive_loop_quiet: "printed (fst (receive_loop e True s evs)) = printed s"
  by (induction e True s evs rule: receive_loop.induct) (simp_all add: loop_body_quiet)

text \<open>
  The end of the session. When a signal arrives while the program is in the loop, the
  program prints the summary last, closes the socket and returns 0. As long as no signal
  arrives the program stays in the loop: no arrival ends it, and none makes it fail.
\<close>

theorem session_ends_by_signal:
  "(Signal \<in> set (arrivals ev) \<longrightarrow>
      outcome (session ev c fd cs) = Finished \<and>
      exit_code (outcome (session ev c fd cs)) = Some 0 \<and>
      calls (session ev c fd cs) = cs @ [Close fd] \<and>
      (\<exists>n b. stdout (session ev c fd cs)
         = printed (fst (receive_loop (host_endian ev) (quiet c) (loop_init (stack_sin ev)) (arrivals ev)))
           @ [summary_line n b])) \<and>
   (Signal \<notin> set (arrivals ev) \<longrightarrow>
      outcome (session ev c fd cs) = Blocked \<and> exit_code (outcome (session ev c fd cs)) = None \<and>
      calls (session ev c fd cs) = cs)"
proof -
  obtain s k where r: "receive_loop (host_endian ev) (quiet c) (loop_init (stack_sin ev)) (arrivals ev) = (s, k)"
    by (cases "receive_loop (host_endian ev) (quiet c) (loop_init (stack_sin ev)) (arrivals ev)")
  have k: "k \<longleftrightarrow> Signal \<in> set (arrivals ev)"
    using receive_loop_cancelled [of "host_endian ev" "quiet c" "loop_init (stack_sin ev)" "arrivals ev"]
    by (simp add: r)
  show ?thesis
    by (auto simp: session_def r k)
qed

text \<open>One datagram and then a signal; one datagram and no signal.\<close>

theorem session_ends_by_signal_witness:
  "Signal \<in> set [Recv (Datagram \<lparr>src_addr = 3221225985, src_port = 9, payload = replicate 10 0\<rparr>), Signal] \<and>
   outcome (session
     \<lparr>host_endian = BigEndian, getifaddrs_result = None,
        getaddrinfo_result = (\<lambda>s. Inr [\<lparr>ai_socket = 3, ai_bind = 0, ai_setsockopt = 0\<rparr>]),
        sigaction_result = (\<lambda>s. 0), setitimer_result = (\<lambda>t. 0),
        stack_cause = [], stack_fd = 0, stack_sin = \<lparr>sin_port = 0, sin_addr = 0\<rparr>,
        arrivals = [Recv (Datagram \<lparr>src_addr = 3221225985, src_port = 9, payload = replicate 10 0\<rparr>), Signal]\<rparr>
     config_init 3 []) = Finished \<and>
   Signal \<notin> set [Recv (Datagram \<lparr>src_addr = 3221225985, src_port = 9, payload = replicate 10 0\<rparr>)] \<and>
   outcome (session
     \<lparr>host_endian = BigEndian, getifaddrs_result = None,
        getaddrinfo_result = (\<lambda>s. Inr [\<lparr>ai_socket = 3, ai_bind = 0, ai_setsockopt = 0\<rparr>]),
        sigaction_result = (\<lambda>s. 0), setitimer_result = (\<lambda>t. 0),
        stack_cause = [], stack_fd = 0, stack_sin = \<lparr>sin_port = 0, sin_addr = 0\<rparr>,
        arrivals = [Recv (Datagram \<lparr>src_addr = 3221225985, src_port = 9, payload = replicate 10 0\<rparr>)]\<rparr>
     config_init 3 []) = Blocked"
proof -
  let ?d = "Recv (Datagram \<lparr>src_addr = 3221225985, src_port = 9, payload = replicate 10 0\<rparr>)"
  let ?ev = "\<lambda>evs. \<lparr>host_endian = BigEndian, getifaddrs_result = None,
        getaddrinfo_result = (\<lambda>s. Inr [\<lparr>ai_socket = 3, ai_bind = 0, ai_setsockopt = 0\<rparr>]),
        sigaction_result = (\<lambda>s. 0), setitimer_result = (\<lambda>t. 0),
        stack_cause = [], stack_fd = 0, stack_sin = \<lparr>sin_port = 0, sin_addr = 0\<rparr>,
        arrivals = evs\<rparr>"
  have h1: "Signal \<in> set (arrivals (?ev [?d, Signal]))" by simp
  have h2: "Signal \<notin> set (arrivals (?ev [?d]))" by simp
  from h1 session_ends_by_signal [of "?ev [?d, Signal]" config_init 3 "[]"]
  have a: "outcome (session (?ev [?d, Signal]) config_init 3 []) = Finished"
    by blast
  from h2 session_ends_by_signal [of "?ev [?d]" config_init 3 "[]"]
  have b: "outcome (session (?ev [?d]) config_init 3 []) = Blocked"
    by blast
  from a b show ?thesis
    by simp
qed

text \<open>
  Quiet mode. With \<^verbatim>\<open>-q\<close> the loop prints nothing, whatever arrives; the only
  output of the session is the summary, printed once when a signal ends the loop.
\<close>

theorem quiet_prints_only_summary:
  "printed (fst (receive_loop e True s evs)) = printed s \<and>
   (quiet c \<and> Signal \<in> set (arrivals ev) \<longrightarrow>
      length (stdout (session ev c fd cs)) = 1) \<and>
   (quiet c \<and> Signal \<notin> set (arrivals ev) \<longrightarrow> stdout (session ev c fd cs) = [])"
proof (intro conjI impI)
  show "printed (fst (receive_loop e True s evs)) = printed s"
    by (rule receive_loop_quiet)
next
  obtain s k where r: "receive_loop (host_endian ev) True (loop_init (stack_sin ev)) (arrivals ev) = (s, k)"
    by (cases "receive_loop (host_endian ev) True (loop_init (stack_sin ev)) (arrivals ev)")
  have k: "k \<longleftrightarrow> Signal \<in> set (arrivals ev)"
    using receive_loop_cancelled [of "host_endian ev" True "loop_init (stack_sin ev)" "arrivals ev"]
    by (simp add: r)
  have "printed s = printed (loop_init (stack_sin ev))"
    using receive_loop_quiet [of "host_endian ev" "loop_init (stack_sin ev)" "arrivals ev"]
    by (simp add: r)
  then have p: "printed s = []"
    by (simp add: loop_init_def)
  {
    assume "quiet c \<and> Signal \<in> set (arrivals ev)"
    then show "length (stdout (session ev c fd cs)) = 1"
      by (simp add: session_def r k p)
  }
  {
    assume "quiet c \<and> Signal \<notin> set (arrivals ev)"
    then show "stdout (session ev c fd cs) = []"
      by (simp add: session_def r k p)
  }
qed

text \<open>A quiet session with one datagram and a signal prints one line.\<close>

theorem quiet_prints_only_summary_witness:
  "quiet (config_init\<lparr>quiet := True\<rparr>) \<and>
   Signal \<in> set [Recv (Datagram \<lparr>src_addr = 3221225985, src_port = 9, payload = replicate 10 0\<rparr>), Signal] \<and>
   length (stdout (session
     \<lparr>host_endian = BigEndian, getifaddrs_result = None,
        getaddrinfo_result = (\<lambda>s. Inr [\<lparr>ai_socket = 3, ai_bind = 0, ai_setsockopt = 0\<rparr>]),
        sigaction_result = (\<lambda>s. 0), setitimer_result = (\<lambda>t. 0),
        stack_cause = [], stack_fd = 0, stack_sin = \<lparr>sin_port = 0, sin_addr = 0\<rparr>,
        arrivals = [Recv (Datagram \<lparr>src_addr = 3221225985, src_port = 9, payload = replicate 10 0\<rparr>), Signal]\<rparr>
     (config_init\<lparr>quiet := True\<rparr>) 3 [])) = 1"
proof -
  let ?d = "Recv (Datagram \<lparr>src_addr = 3221225985, src_port = 9, payload = replicate 10 0\<rparr>)"
  let ?ev = "\<lparr>host_endian = BigEndian, getifaddrs_result = None,
        getaddrinfo_result = (\<lambda>s. Inr [\<lparr>ai_socket = 3, ai_bind = 0, ai_setsockopt = 0\<rparr>]),
        sigaction_result = (\<lambda>s. 0), setitimer_result = (\<lambda>t. 0),
        stack_cause = [], stack_fd = 0, stack_sin = \<lparr>sin_port = 0, sin_addr = 0\<rparr>,
        arrivals = [?d, Signal]\<rparr>"
  have h: "quiet (config_init\<lparr>quiet := True\<rparr>) \<and> Signal \<in> set (arrivals ?ev)"
    by simp
  from h quiet_prints_only_summary [of _ _ _ "config_init\<lparr>quiet := True\<rparr>" ?ev 3 "[]"]
  have "length (stdout (session ?ev (config_init\<lparr>quiet := True\<rparr>) 3 [])) = 1"
    by blast
  with h show ?thesis
    by simp
qed


end
